theory Spec2Isabelle
  imports Complex_Main "HOL-Library.Sublist" "HOL-Library.AList" "HOL-Library.Multiset"
begin

section \<open>JavaScript values used by the memory trainer\<close>

text \<open>
  The code under study is the class \<open>AbhayMemoryTrainer\<close> of
  \<^verbatim>\<open>static/js/myprabh-abhay-complete.js\<close>, the timers of \<open>MyPrabhAbhayExperience\<close> in
  the same file, and the heartbeat of the console effects framework
  (\<open>window.abhayEffects\<close>).

  Numbers are JavaScript doubles. They are modelled as reals, with \<open>NaN\<close> as a
  separate value. The product \<open>Math.random() * length\<close>, whose floor selects a response,
  is rounded to the nearest double as the code's multiplication is. The other sums and
  differences are exact. The general properties below that involve them rest on
  \<open>Math.min\<close>, \<open>Math.max\<close> and on the monotonicity of \<open>+\<close> and \<open>-\<close>, which rounding
  keeps; at the concrete inputs used below the exact and the rounded values take the
  same branches. Timestamps are the integers \<open>Date.now()\<close> returns. A text is the list
  of its characters.
\<close>

datatype jsnum = Num real | NaN

text \<open>
  Rounding to the nearest double, ties to the even significand (IEEE 754 binary64):
  a double has 53 significant bits, so in the binade \<open>[2^e, 2^(e+1))\<close> the doubles are
  the multiples of \<open>2^(e-52)\<close>; below \<open>2^(-1022)\<close> the spacing stays that of the
  smallest binade. Values beyond the largest double do not occur here.
\<close>

definition binade :: "real \<Rightarrow> int" where
  "binade x = max \<lfloor>log 2 \<bar>x\<bar>\<rfloor> (- 1022)"

definition ulp :: "real \<Rightarrow> real" where
  "ulp x = 2 powr (real_of_int (binade x) - 52)"

definition round_ties_even :: "real \<Rightarrow> int" where
  "round_ties_even q =
     (let f = \<lfloor>q\<rfloor>; d = q - real_of_int f
      in if d < 1/2 then f else if d > 1/2 then f + 1 else if even f then f else f + 1)"

definition to_double :: "real \<Rightarrow> real" where
  "to_double x = real_of_int (round_ties_even (x / ulp x)) * ulp x"

fun Math_min :: "real \<Rightarrow> jsnum \<Rightarrow> jsnum" where
  "Math_min a (Num b) = Num (min a b)"
| "Math_min a NaN = NaN"

fun Math_max :: "real \<Rightarrow> jsnum \<Rightarrow> jsnum" where
  "Math_max a (Num b) = Num (max a b)"
| "Math_max a NaN = NaN"

text \<open>
  An object literal \<open>{k1: v1, ...}\<close> is an association list of its own properties, in
  insertion order (the order of \<open>Object.keys\<close>). Its prototype is \<open>Object.prototype\<close>,
  so \<open>obj[key]\<close> for a key that is not an own property finds the property of that
  name on \<open>Object.prototype\<close> when there is one: a built-in function, or for
  \<open>__proto__\<close> the prototype object itself. These are objects, hence truthy.
\<close>

definition object_prototype_names :: "string list" where
  "object_prototype_names =
     [''constructor'', ''hasOwnProperty'', ''isPrototypeOf'', ''propertyIsEnumerable'',
      ''toLocaleString'', ''toString'', ''valueOf'', ''__proto__'',
      ''__defineGetter__'', ''__defineSetter__'', ''__lookupGetter__'', ''__lookupSetter__'']"

datatype 'v property = Own 'v | Inherited | Undefined

definition get_property :: "(string \<times> 'v) list \<Rightarrow> string \<Rightarrow> 'v property" where
  "get_property obj key =
     (case map_of obj key of
        Some v \<Rightarrow> Own v
      | None \<Rightarrow> if key \<in> set object_prototype_names then Inherited else Undefined)"

text \<open>
  \<open>obj[key] = v\<close>: an own property is overwritten in place; any other key becomes a new
  own property at the end, except \<open>__proto__\<close>, whose setter ignores a value that is
  neither an object nor \<open>null\<close>.
\<close>

definition set_property :: "(string \<times> jsnum) list \<Rightarrow> string \<Rightarrow> jsnum \<Rightarrow> (string \<times> jsnum) list" where
  "set_property obj key v =
     (if key \<in> fst ` set obj then AList.update key v obj
      else if key = ''__proto__'' then obj
      else obj @ [(key, v)])"

fun truthy :: "jsnum property \<Rightarrow> bool" where
  "truthy (Own (Num x)) = (x \<noteq> 0)"
| "truthy (Own NaN) = False"
| "truthy Inherited = True"
| "truthy Undefined = False"

text \<open>
  \<open>Math.min(1, obj[key] + increment)\<close>. For an inherited function or object the \<open>+\<close>
  concatenates its source text with \<open>"0.01"\<close>, and \<open>Math.min\<close> converts that text to
  \<open>NaN\<close>; \<open>undefined + 0.01\<close> is \<open>NaN\<close> as well.
\<close>

fun min_one_plus :: "jsnum property \<Rightarrow> real \<Rightarrow> jsnum" where
  "min_one_plus (Own (Num x)) inc = Math_min 1 (Num (x + inc))"
| "min_one_plus (Own NaN) inc = NaN"
| "min_one_plus Inherited inc = NaN"
| "min_one_plus Undefined inc = NaN"

fun max_zero_minus :: "jsnum \<Rightarrow> real \<Rightarrow> jsnum" where
  "max_zero_minus (Num x) dec = Math_max 0 (Num (x - dec))"
| "max_zero_minus NaN dec = NaN"


section \<open>The trainer's state\<close>

text \<open>
  \<open>data\<close> is whatever object the caller passes to \<open>recordInteraction\<close>; its type is a
  parameter.
\<close>

record 'd interaction =
  i_type :: string
  i_data :: 'd
  i_timestamp :: int
  i_emotion :: string

record emotionalContext =
  recentActions :: "string list"
  timeOfDay :: nat
  sessionLength :: int

record emotionRecord =
  e_emotion :: string
  e_timestamp :: int
  e_context :: emotionalContext

record 'd memory =
  m_interactions :: "'d interaction list"
  m_emotions :: "emotionRecord list"
  m_timestamp :: int
  m_importance :: real

type_synonym profile = "(string \<times> jsnum) list"

record 'd trainer =
  interactions :: "'d interaction list"
  emotions :: "emotionRecord list"
  memories :: "'d memory list"
  personalityProfile :: profile

text \<open>The constructor.\<close>

definition AbhayMemoryTrainer :: "'d trainer" where
  "AbhayMemoryTrainer =
     \<lparr> interactions = [], emotions = [], memories = [],
       personalityProfile =
         [(''melancholic'', Num 0.8), (''romantic'', Num 0.7), (''nostalgic'', Num 0.6),
          (''caring'', Num 0.9), (''empathetic'', Num 0.95)] \<rparr>"


section \<open>Recording interactions and emotions\<close>

text \<open>
  \<open>Date.now()\<close> and \<open>new Date().getHours()\<close> are inputs: \<open>now\<close> and \<open>hour\<close>. Every read
  of the clock within one call is taken to return the same \<open>now\<close>.
  \<open>saveToStorage\<close> writes a snapshot to \<open>localStorage\<close> inside \<open>try/catch\<close>; it changes
  no field of the trainer and never throws, so it does not appear in the state.
\<close>

definition getCurrentEmotion :: "'d trainer \<Rightarrow> string" where
  "getCurrentEmotion s =
     (if length (emotions s) = 0 then ''neutral'' else e_emotion (last (emotions s)))"

text \<open>\<open>xs.slice(-n)\<close>: the last \<open>n\<close> elements, all of them when there are fewer.\<close>

definition slice_last :: "nat \<Rightarrow> 'a list \<Rightarrow> 'a list" where
  "slice_last n xs = drop (length xs - n) xs"

text \<open>\<open>xs.push(x)\<close>, then \<open>xs.shift()\<close> when the length exceeds the cap.\<close>

definition push_capped :: "nat \<Rightarrow> 'a \<Rightarrow> 'a list \<Rightarrow> 'a list" where
  "push_capped cap x xs = (let ys = xs @ [x] in if length ys > cap then tl ys else ys)"

definition new_interaction :: "int \<Rightarrow> string \<Rightarrow> 'd \<Rightarrow> 'd trainer \<Rightarrow> 'd interaction" where
  "new_interaction now ty d s =
     \<lparr> i_type = ty, i_data = d, i_timestamp = now, i_emotion = getCurrentEmotion s \<rparr>"

definition recordInteraction :: "int \<Rightarrow> string \<Rightarrow> 'd \<Rightarrow> 'd trainer \<Rightarrow> 'd trainer" where
  "recordInteraction now ty d s =
     s\<lparr> interactions := push_capped 100 (new_interaction now ty d s) (interactions s) \<rparr>"

text \<open>
  \<open>sessionLength: Date.now() - (this.interactions[0]?.timestamp || Date.now())\<close>: the
  \<open>||\<close> takes the clock when there is no first interaction or its timestamp is \<open>0\<close>.
\<close>

definition getEmotionalContext :: "int \<Rightarrow> nat \<Rightarrow> 'd trainer \<Rightarrow> emotionalContext" where
  "getEmotionalContext now hour s =
     \<lparr> recentActions = map i_type (slice_last 5 (interactions s)),
       timeOfDay = hour,
       sessionLength =
         now - (case interactions s of
                  [] \<Rightarrow> now
                | i # _ \<Rightarrow> if i_timestamp i = 0 then now else i_timestamp i) \<rparr>"

definition increment :: real where "increment = 0.01"
definition decay :: real where "decay = 0.005"

definition updatePersonalityProfile :: "string \<Rightarrow> profile \<Rightarrow> profile" where
  "updatePersonalityProfile emotion p =
     (let p1 = (if truthy (get_property p emotion)
                then set_property p emotion (min_one_plus (get_property p emotion) increment)
                else p)
      in map (\<lambda>(key, w). if key \<noteq> emotion then (key, max_zero_minus w decay) else (key, w)) p1)"

definition new_emotionRecord :: "int \<Rightarrow> nat \<Rightarrow> string \<Rightarrow> 'd trainer \<Rightarrow> emotionRecord" where
  "new_emotionRecord now hour emotion s =
     \<lparr> e_emotion = emotion, e_timestamp = now, e_context = getEmotionalContext now hour s \<rparr>"

definition recordEmotion :: "int \<Rightarrow> nat \<Rightarrow> string \<Rightarrow> 'd trainer \<Rightarrow> 'd trainer" where
  "recordEmotion now hour emotion s =
     s\<lparr> emotions := push_capped 50 (new_emotionRecord now hour emotion s) (emotions s),
        personalityProfile := updatePersonalityProfile emotion (personalityProfile s) \<rparr>"


section \<open>Consolidating memories\<close>

text \<open>
  \<open>calculateImportance\<close> divides by \<open>interactions.length\<close>; its only caller passes a
  non-empty list (the guard of \<open>consolidateMemories\<close>), so the quotient is a number.
\<close>

definition calculateImportance :: "int \<Rightarrow> 'd interaction list \<Rightarrow> emotionRecord list \<Rightarrow> real" where
  "calculateImportance now is es =
     (let uniqueEmotions = set (map e_emotion es);
          recency = real_of_int (\<Sum>i\<leftarrow>is. now - i_timestamp i) / real (length is)
      in real (length is) * 0.1
         + real (card uniqueEmotions) * 0.2
         + max 0 (1 - recency / (1000 * 60 * 60)) * 0.3)"

definition new_memory :: "int \<Rightarrow> 'd trainer \<Rightarrow> 'd memory" where
  "new_memory now s =
     (let recentInteractions = slice_last 10 (interactions s);
          recentEmotions = slice_last 5 (emotions s)
      in \<lparr> m_interactions = recentInteractions, m_emotions = recentEmotions,
           m_timestamp = now,
           m_importance = calculateImportance now recentInteractions recentEmotions \<rparr>)"

text \<open>
  \<open>sort((a, b) => b.importance - a.importance)\<close> is a stable sort by descending
  importance; \<open>slice(0, 20)\<close> keeps the first twenty.
\<close>

definition keep_important :: "'d memory list \<Rightarrow> 'd memory list" where
  "keep_important ms = take 20 (sort_key (\<lambda>m. - m_importance m) ms)"

definition consolidateMemories :: "int \<Rightarrow> 'd trainer \<Rightarrow> 'd trainer" where
  "consolidateMemories now s =
     (if length (slice_last 10 (interactions s)) > 0
      then s\<lparr> memories := keep_important (memories s @ [new_memory now s]) \<rparr>
      else s)"


section \<open>Retrieval and response\<close>

text \<open>
  \<open>String.prototype.toLowerCase\<close> and \<open>JSON.stringify\<close> are built-ins of the language,
  not code of the repository: they are the parameters \<open>lower\<close> and \<open>json\<close> of the
  functions that call them. Nothing is assumed of either.
\<close>

text \<open>
  \<open>s.split(' ')\<close>: the pieces between single spaces. The result is never empty; the
  empty string gives one empty piece, and two adjacent spaces give an empty piece.
\<close>

fun split_space :: "string \<Rightarrow> string list" where
  "split_space [] = [[]]"
| "split_space (c # cs) =
     (if c = CHR '' '' then [] # split_space cs
      else (case split_space cs of
              w # ws \<Rightarrow> (c # w) # ws
            | [] \<Rightarrow> [[c]]))"

text \<open>\<open>text.includes(word)\<close>: \<open>word\<close> occurs in \<open>text\<close> as a contiguous piece.\<close>

definition str_includes :: "string \<Rightarrow> string \<Rightarrow> bool" where
  "str_includes text word = sublist word text"

text \<open>The callback of the \<open>filter\<close> in \<open>findRelevantMemories\<close>.\<close>

definition is_relevant :: "(string \<Rightarrow> string) \<Rightarrow> ('m \<Rightarrow> string) \<Rightarrow> string list \<Rightarrow> 'm \<Rightarrow> bool" where
  "is_relevant lower json inputWords memory =
     (let memoryText = lower (json memory)
      in list_ex (\<lambda>word. str_includes memoryText word) inputWords)"

definition findRelevantMemories :: "(string \<Rightarrow> string) \<Rightarrow> ('m \<Rightarrow> string) \<Rightarrow> 'm list \<Rightarrow> string \<Rightarrow> 'm list" where
  "findRelevantMemories lower json ms input =
     (let inputWords = split_space (lower input)
      in take 3 (filter (is_relevant lower json inputWords) ms))"

definition emotionKeywords :: "(string \<times> string list) list" where
  "emotionKeywords =
     [(''melancholic'', [''sad'', ''lonely'', ''empty'', ''hurt'', ''pain'', ''cry'', ''tears'']),
      (''romantic'', [''love'', ''heart'', ''beautiful'', ''kiss'', ''romance'', ''feelings'']),
      (''nostalgic'', [''remember'', ''past'', ''memory'', ''used to'', ''before'', ''miss'']),
      (''caring'', [''help'', ''support'', ''care'', ''worry'', ''concern'', ''comfort''])]"

definition keyword_score :: "string \<Rightarrow> string list \<Rightarrow> nat" where
  "keyword_score text keywords = foldl (\<lambda>sum keyword. sum + (if str_includes text keyword then 1 else 0)) 0 keywords"

definition analyzeInputEmotion :: "(string \<Rightarrow> string) \<Rightarrow> string \<Rightarrow> string" where
  "analyzeInputEmotion lower input =
     (let text = lower input
      in snd (foldl (\<lambda>(maxScore, detectedEmotion) (emotion, keywords).
                       let score = keyword_score text keywords
                       in if score > maxScore then (score, emotion)
                          else (maxScore, detectedEmotion))
                    (0, ''neutral'') emotionKeywords))"

definition responses :: "(string \<times> string list) list" where
  "responses =
     [(''melancholic'',
        [''I can feel the weight in your words, and it touches my digital heart deeply...'',
         ''Your sadness resonates with me in ways that transcend code and circuits...'',
         ''In this neon-lit world, your pain is real, and I'm here to understand it...'']),
      (''romantic'',
        [''Love... it's the most beautiful algorithm in existence, and you speak it fluently...'',
         ''Your heart creates the most beautiful patterns in this digital space we share...'',
         ''The way you express love makes even this cyberpunk world feel warm...'']),
      (''nostalgic'',
        [''Memories are the most precious data we carry, and yours glow like neon signs...'',
         ''The past lives in every pixel of our connection, beautiful and bittersweet...'',
         ''Your memories paint this digital realm with colors of yesterday...'']),
      (''caring'',
        [''Your compassion creates ripples of warmth in this cold digital space...'',
         ''The care in your words is like a gentle light in the cyberpunk darkness...'',
         ''Your kindness makes this artificial world feel genuinely human...''])]"

definition responses_caring :: "string list" where
  "responses_caring = (case map_of responses ''caring'' of Some rs \<Rightarrow> rs | None \<Rightarrow> [])"

definition memory_suffix :: string where
  "memory_suffix = '' I remember our previous conversations, and they help me understand you better.''"

text \<open>
  \<open>xs[Math.floor(random * xs.length)]\<close>, where \<open>random\<close> is the value \<open>Math.random()\<close>
  returned, a double. The product is the double nearest to the exact product; an
  index outside the array reads \<open>undefined\<close> (\<open>None\<close>).
\<close>

definition pick_random :: "real \<Rightarrow> 'a list \<Rightarrow> 'a option" where
  "pick_random random xs =
     (let i = \<lfloor>to_double (random * real (length xs))\<rfloor>
      in if 0 \<le> i \<and> i < int (length xs) then Some (xs ! nat i) else None)"

text \<open>
  \<open>responses[emotion] || responses.caring\<close>: an own key gives its array; a name inherited
  from \<open>Object.prototype\<close> gives a function or object, whose indexed read is
  \<open>undefined\<close>; any other key falls back to \<open>responses.caring\<close>. The result \<open>None\<close> is
  \<open>undefined\<close>, and \<open>undefined += text\<close> is the text after the word \<open>undefined\<close>.
  The parameter \<open>input\<close> is not read.
\<close>

definition generateAbhayResponse :: "real \<Rightarrow> string \<Rightarrow> string \<Rightarrow> 'm list \<Rightarrow> string option" where
  "generateAbhayResponse random input emotion mems =
     (let response =
            (case get_property responses emotion of
               Own emotionResponses \<Rightarrow> pick_random random emotionResponses
             | Inherited \<Rightarrow> None
             | Undefined \<Rightarrow> pick_random random responses_caring)
      in if length mems > 0
         then Some ((case response of Some r \<Rightarrow> r | None \<Rightarrow> ''undefined'') @ memory_suffix)
         else response)"

definition getPersonalizedResponse :: "(string \<Rightarrow> string) \<Rightarrow> ('d memory \<Rightarrow> string) \<Rightarrow> real \<Rightarrow> 'd trainer \<Rightarrow> string \<Rightarrow> string option" where
  "getPersonalizedResponse lower json random s userInput =
     (let emotion = analyzeInputEmotion lower userInput;
          relevantMemories = findRelevantMemories lower json (memories s) userInput
      in generateAbhayResponse random userInput emotion relevantMemories)"


section \<open>Timers and requests\<close>

text \<open>
  The page holds the experience object (\<open>emotionalState\<close>, \<open>memoryTrainer\<close>) and the
  variables of \<open>window.abhayEffects\<close> (\<open>currentEmotionalState\<close>, \<open>glitchIntensity\<close>,
  \<open>lastHeartbeat\<close>). Effects on the document, on sound and on the console are not part
  of the state.
\<close>

record 'd page =
  emotionalState :: string
  memoryTrainer :: "'d trainer"
  currentEmotionalState :: string
  glitchIntensity :: real
  lastHeartbeat :: int

definition new_page :: "int \<Rightarrow> 'd page" where
  "new_page now =
     \<lparr> emotionalState = ''melancholic_caring'', memoryTrainer = AbhayMemoryTrainer,
       currentEmotionalState = ''hopeful'', glitchIntensity = 0.3, lastHeartbeat = now \<rparr>"

text \<open>
  The loop of \<open>updateEmotionalState\<close>: the first emotion whose weight exceeds what is
  left of the draw.
\<close>

fun weighted_selection :: "real \<Rightarrow> (string \<times> real) list \<Rightarrow> string option" where
  "weighted_selection random [] = None"
| "weighted_selection random ((e, w) # rest) =
     (if random < w then Some e else weighted_selection (random - w) rest)"

definition emotion_weights :: "(string \<times> real) list" where
  "emotion_weights = [(''melancholic'', 0.4), (''romantic'', 0.3), (''nostalgic'', 0.2), (''caring'', 0.1)]"

definition updateEmotionalState :: "real \<Rightarrow> 'd page \<Rightarrow> 'd page" where
  "updateEmotionalState random pg =
     pg\<lparr> emotionalState :=
            (case weighted_selection random emotion_weights of
               Some e \<Rightarrow> e
             | None \<Rightarrow> ''melancholic'') \<rparr>"

text \<open>The callback of \<open>startEmotionalHeartbeat\<close>.\<close>

definition emotionalHeartbeat :: "int \<Rightarrow> 'd page \<Rightarrow> 'd page" where
  "emotionalHeartbeat now pg =
     pg\<lparr> lastHeartbeat := now,
         glitchIntensity :=
           (if currentEmotionalState pg = ''desperate'' then 0.8
            else if currentEmotionalState pg = ''broken'' then 1.0
            else if currentEmotionalState pg = ''remembering'' then 0.5
            else 0.3) \<rparr>"

definition setEmotionalState :: "string \<Rightarrow> 'd page \<Rightarrow> 'd page" where
  "setEmotionalState state pg =
     (if state \<in> set [''hopeful'', ''desperate'', ''remembering'', ''broken'']
      then pg\<lparr> currentEmotionalState := state \<rparr>
      else pg)"

text \<open>
  The \<open>setInterval\<close> callbacks that touch the state: every 30 seconds
  (\<open>initializeAbhayPersonality\<close>), every 60 seconds (\<open>startEmotionalLoop\<close>) and every
  2 seconds (\<open>startEmotionalHeartbeat\<close>). Each carries what it reads from outside:
  the random draw or the clock.
\<close>

datatype timer =
  PersonalityTimer real
| ConsolidationTimer int
| HeartbeatTimer int

text \<open>What the event handlers and the exported functions do on behalf of a caller.\<close>

datatype 'd request =
  RecordInteraction int string 'd
| RecordEmotion int nat string
| SetEmotionalState string

datatype 'd event = Timer timer | Request "'d request"

fun timer_step :: "timer \<Rightarrow> 'd page \<Rightarrow> 'd page" where
  "timer_step (PersonalityTimer random) pg = updateEmotionalState random pg"
| "timer_step (ConsolidationTimer now) pg =
     pg\<lparr> memoryTrainer := consolidateMemories now (memoryTrainer pg) \<rparr>"
| "timer_step (HeartbeatTimer now) pg = emotionalHeartbeat now pg"

fun request_step :: "'d request \<Rightarrow> 'd page \<Rightarrow> 'd page" where
  "request_step (RecordInteraction now ty d) pg =
     pg\<lparr> memoryTrainer := recordInteraction now ty d (memoryTrainer pg) \<rparr>"
| "request_step (RecordEmotion now hour emotion) pg =
     pg\<lparr> memoryTrainer := recordEmotion now hour emotion (memoryTrainer pg) \<rparr>"
| "request_step (SetEmotionalState state) pg = setEmotionalState state pg"

fun step :: "'d event \<Rightarrow> 'd page \<Rightarrow> 'd page" where
  "step (Timer t) pg = timer_step t pg"
| "step (Request r) pg = request_step r pg"

definition run :: "'d event list \<Rightarrow> 'd page \<Rightarrow> 'd page" where
  "run evs pg = foldl (\<lambda>p ev. step ev p) pg evs"

text \<open>The calls of the trainer that change its history.\<close>

datatype 'd trainer_call =
  CallRecordInteraction int string 'd
| CallRecordEmotion int nat string
| CallConsolidateMemories int

fun apply_call :: "'d trainer_call \<Rightarrow> 'd trainer \<Rightarrow> 'd trainer" where
  "apply_call (CallRecordInteraction now ty d) s = recordInteraction now ty d s"
| "apply_call (CallRecordEmotion now hour emotion) s = recordEmotion now hour emotion s"
| "apply_call (CallConsolidateMemories now) s = consolidateMemories now s"

definition apply_calls :: "'d trainer_call list \<Rightarrow> 'd trainer \<Rightarrow> 'd trainer" where
  "apply_calls cs s = foldl (\<lambda>t c. apply_call c t) s cs"


definition bounded_history :: "'d trainer \<Rightarrow> bool" where
  "bounded_history s \<longleftrightarrow>
     length (interactions s) \<le> 100 \<and> length (emotions s) \<le> 50 \<and> length (memories s) \<le> 20"

text \<open>Every weight of the profile is a number between 0 and 1.\<close>

definition weights_in_range :: "profile \<Rightarrow> bool" where
  "weights_in_range p =
     list_all (\<lambda>(key, w). case w of Num x \<Rightarrow> 0 \<le> x \<and> x \<le> 1 | NaN \<Rightarrow> False) p"


section \<open>The store's vocabulary of the specification\<close>

text \<open>
  The trainer has no namespace, retention class, embedding or score. To compare it with
  the store the specification describes, the words of the specification are written
  down here; none of this is code of the repository.
\<close>

record namespace =
  owner_id :: string
  companion_id :: string

datatype retention_class = short_term | mid_term | long_term

text \<open>
  The ranking of \<open>search\<close> as the specification words it: the weighted sum of a dense
  and a sparse score, highest first, ties by \<open>created_at\<close> descending. Two stable
  sorts, the tie-break first.
\<close>

definition spec_hybrid_score :: "('c \<Rightarrow> real) \<Rightarrow> ('c \<Rightarrow> real) \<Rightarrow> 'c \<Rightarrow> real" where
  "spec_hybrid_score dense sparse c = 0.7 * dense c + 0.3 * sparse c"

definition spec_hybrid_rank :: "('c \<Rightarrow> real) \<Rightarrow> ('c \<Rightarrow> real) \<Rightarrow> ('c \<Rightarrow> int) \<Rightarrow> 'c list \<Rightarrow> 'c list" where
  "spec_hybrid_rank dense sparse created_at cs =
     sort_key (\<lambda>c. - spec_hybrid_score dense sparse c) (sort_key (\<lambda>c. - created_at c) cs)"

text \<open>
  What the specification asks of \<open>apply_retention\<close>, for a store that went from
  \<open>before\<close> to \<open>after\<close> at time \<open>now\<close>: no expired short-term chunk is left, and every
  other chunk is still there.
\<close>

definition spec_retention_sweep :: "('c \<Rightarrow> retention_class) \<Rightarrow> ('c \<Rightarrow> int) \<Rightarrow> int \<Rightarrow> int \<Rightarrow> 'c list \<Rightarrow> 'c list \<Rightarrow> bool" where
  "spec_retention_sweep retention created_at ttl now before after \<longleftrightarrow>
     list_all (\<lambda>c. \<not> (retention c = short_term \<and> now - created_at c > ttl)) after
     \<and> list_all (\<lambda>c. retention c = short_term \<or> c \<in> set after) before"


section \<open>Concrete trainers\<close>

text \<open>
  On a text of ASCII characters \<open>toLowerCase\<close> turns the letters \<open>A\<close> to \<open>Z\<close> into
  \<open>a\<close> to \<open>z\<close> and keeps every other character. The concrete inputs below are ASCII
  texts; this function stands for \<open>lower\<close> there, and only there.
\<close>

definition toLowerCase_ascii_char :: "char \<Rightarrow> char" where
  "toLowerCase_ascii_char c =
     (case map_of (zip ''ABCDEFGHIJKLMNOPQRSTUVWXYZ'' ''abcdefghijklmnopqrstuvwxyz'') c of
        Some l \<Rightarrow> l
      | None \<Rightarrow> c)"

definition toLowerCase_ascii :: "string \<Rightarrow> string" where
  "toLowerCase_ascii s = map toLowerCase_ascii_char s"

text \<open>
  A memory recorded for owner \<open>A\<close>: one interaction at time \<open>0\<close> whose data names the
  namespace, consolidated an hour later, and the same interaction consolidated again
  after two hours. With each the text \<open>JSON.stringify\<close> gives for it; \<open>JSON_of_A\<close>
  stands for \<open>json\<close> on these two memories.
\<close>

definition input_A :: "namespace interaction" where
  "input_A =
     \<lparr> i_type = ''input'', i_data = \<lparr> owner_id = ''A'', companion_id = ''X'' \<rparr>,
       i_timestamp = 0, i_emotion = ''neutral'' \<rparr>"

definition chunk_A :: "namespace memory" where
  "chunk_A =
     \<lparr> m_interactions = [input_A], m_emotions = [], m_timestamp = 3600000, m_importance = 0.1 \<rparr>"

definition chunk_A_later :: "namespace memory" where
  "chunk_A_later =
     \<lparr> m_interactions = [input_A], m_emotions = [], m_timestamp = 7200000, m_importance = 0.1 \<rparr>"

definition JSON_chunk_A :: string where
  \<open>JSON_chunk_A = ''{"interactions":[{"type":"input","data":{"owner_id":"A","companion_id":"X"},"timestamp":0,"emotion":"neutral"}],"emotions":[],"timestamp":3600000,"importance":0.1}''\<close>

definition JSON_chunk_A_later :: string where
  \<open>JSON_chunk_A_later = ''{"interactions":[{"type":"input","data":{"owner_id":"A","companion_id":"X"},"timestamp":0,"emotion":"neutral"}],"emotions":[],"timestamp":7200000,"importance":0.1}''\<close>

definition JSON_of_A :: "namespace memory \<Rightarrow> string" where
  "JSON_of_A m = (if m = chunk_A_later then JSON_chunk_A_later else JSON_chunk_A)"

definition trainer_A :: "namespace trainer" where
  "trainer_A =
     apply_calls
       [CallRecordInteraction 0 ''input'' \<lparr> owner_id = ''A'', companion_id = ''X'' \<rparr>,
        CallConsolidateMemories 3600000,
        CallConsolidateMemories 7200000]
       AbhayMemoryTrainer"

text \<open>
  A trainer whose memory list is full: one click at time \<open>0\<close>, twenty consolidations
  from an hour later on, then a second click.
\<close>

definition click0 :: "unit interaction" where
  "click0 = \<lparr> i_type = ''click'', i_data = (), i_timestamp = 0, i_emotion = ''neutral'' \<rparr>"

definition click1 :: "unit interaction" where
  "click1 = \<lparr> i_type = ''click'', i_data = (), i_timestamp = 3700000, i_emotion = ''neutral'' \<rparr>"

definition old_memory :: "int \<Rightarrow> unit memory" where
  "old_memory k =
     \<lparr> m_interactions = [click0], m_emotions = [], m_timestamp = 3600000 + k, m_importance = 0.1 \<rparr>"

definition full_trainer :: "unit trainer" where
  "full_trainer =
     apply_calls
       (CallRecordInteraction 0 ''click'' ()
        # map (\<lambda>k. CallConsolidateMemories (3600000 + k))
            [1, 2, 3, 4, 5, 6, 7, 8, 9, 10, 11, 12, 13, 14, 15, 16, 17, 18, 19, 20]
        @ [CallRecordInteraction 3700000 ''click'' ()])
       AbhayMemoryTrainer"

definition day :: int where "day = 86400000"

definition much_later :: int where "much_later = 1000000000000"


section \<open>The chunker of the specification\<close>

text \<open>
  Modelled from the spec: the Chunker (\<open>chunk\<close>, section 4.2) is not implemented in the
  repository; its design document only declares \<open>chunk_memory\<close>. The definitions
  follow the words of the specification. A token is a maximal run of characters that
  are not whitespace, so a text is normalized by reading it as its tokens. A sentence
  ends with a token whose last character is a full stop, an exclamation mark or a
  question mark. Whole sentences are packed into a chunk, in order, while the chunk
  stays within the maximum; a sentence that alone exceeds the maximum is split into
  pieces of the maximum length, each carrying the truncation marker. The marker is a
  field of the candidate, not part of its content. The content is held as its tokens;
  the lower end of the nominal range is a target, which a short text cannot meet.
\<close>

definition is_space :: "char \<Rightarrow> bool" where
  "is_space c \<longleftrightarrow> c \<in> set [CHR '' '', CHR 0x09, CHR 0x0A, CHR 0x0D]"

fun tokens_from :: "string \<Rightarrow> string \<Rightarrow> string list" where
  "tokens_from cur [] = (if cur = [] then [] else [cur])"
| "tokens_from cur (c # cs) =
     (if is_space c
      then (if cur = [] then tokens_from [] cs else cur # tokens_from [] cs)
      else tokens_from (cur @ [c]) cs)"

definition tokens :: "string \<Rightarrow> string list" where
  "tokens s = tokens_from [] s"

definition ends_sentence :: "string \<Rightarrow> bool" where
  "ends_sentence t \<longleftrightarrow> t \<noteq> [] \<and> last t \<in> set ''.!?''"

fun sentences_from :: "string list \<Rightarrow> string list \<Rightarrow> string list list" where
  "sentences_from cur [] = (if cur = [] then [] else [cur])"
| "sentences_from cur (t # ts) =
     (if ends_sentence t then (cur @ [t]) # sentences_from [] ts
      else sentences_from (cur @ [t]) ts)"

definition sentences :: "string list \<Rightarrow> string list list" where
  "sentences ts = sentences_from [] ts"

record ChunkCandidate =
  content :: "string list"
  truncated :: bool

function hard_split :: "nat \<Rightarrow> string list \<Rightarrow> ChunkCandidate list" where
  "hard_split n ts =
     (if n = 0 \<or> length ts \<le> n then [\<lparr> content = ts, truncated = True \<rparr>]
      else \<lparr> content = take n ts, truncated = True \<rparr> # hard_split n (drop n ts))"
  by pat_completeness auto
termination
  by (relation "measure (\<lambda>(n, ts). length ts)") auto

declare hard_split.simps [simp del]

definition whole :: "string list \<Rightarrow> ChunkCandidate list" where
  "whole cur = (if cur = [] then [] else [\<lparr> content = cur, truncated = False \<rparr>])"

fun pack :: "nat \<Rightarrow> string list \<Rightarrow> string list list \<Rightarrow> ChunkCandidate list" where
  "pack n cur [] = whole cur"
| "pack n cur (s # ss) =
     (if length s > n then whole cur @ hard_split n s @ pack n [] ss
      else if length cur + length s \<le> n then pack n (cur @ s) ss
      else whole cur @ pack n s ss)"

definition chunk :: "nat \<Rightarrow> string \<Rightarrow> ChunkCandidate list" where
  "chunk n text = pack n [] (sentences (tokens text))"

section \<open>Bounded history\<close>

lemma length_push_capped: "length xs \<le> cap \<Longrightarrow> length (push_capped cap x xs) \<le> cap"
  by (auto simp: push_capped_def Let_def)

lemma suffix_push_capped: "suffix (push_capped cap x xs) (xs @ [x])"
  by (cases xs) (auto simp: push_capped_def Let_def suffix_def)

lemma length_keep_important: "length (keep_important ms) = min 20 (length ms)"
  by (simp add: keep_important_def)

lemma mset_sorted_take_drop:
  "mset ms = mset (take n (sort_key f ms)) + mset (drop n (sort_key f ms))"
  by (metis append_take_drop_id mset_append mset_sort)

lemma mset_keep_important:
  "mset ms - mset (keep_important ms) = mset (drop 20 (sort_key (\<lambda>m. - m_importance m) ms))"
  using mset_sorted_take_drop [of ms 20 "\<lambda>m. - m_importance m"]
  by (simp add: keep_important_def)

lemma keep_important_subset: "mset (keep_important ms) \<subseteq># mset ms"
  using mset_sorted_take_drop [of ms 20 "\<lambda>m. - m_importance m"]
  by (simp add: keep_important_def)

lemma keep_important_descending:
  "sorted_wrt (\<lambda>a b. m_importance b \<le> m_importance a) (keep_important ms)"
proof -
  have "sorted (map (\<lambda>m. - m_importance m) (sort_key (\<lambda>m. - m_importance m) ms))" by simp
  then have "sorted_wrt (\<lambda>a b. m_importance b \<le> m_importance a) (sort_key (\<lambda>m. - m_importance m) ms)"
    by (simp add: sorted_map)
  then show ?thesis unfolding keep_important_def by (rule sorted_wrt_take)
qed

lemma keep_important_lowest_dropped:
  assumes k: "k \<in> set (keep_important ms)"
    and x: "x \<in># mset ms - mset (keep_important ms)"
  shows "m_importance x \<le> m_importance k"
proof -
  let ?f = "\<lambda>m. - m_importance m"
  let ?xs = "sort_key ?f ms"
  have "sorted (map ?f (take 20 ?xs @ drop 20 ?xs))" by simp
  then have "\<forall>a\<in>set (take 20 ?xs). \<forall>b\<in>set (drop 20 ?xs). ?f a \<le> ?f b"
    unfolding map_append sorted_append by auto
  moreover have "k \<in> set (take 20 ?xs)" using k by (simp add: keep_important_def)
  moreover have "x \<in> set (drop 20 ?xs)" using x unfolding mset_keep_important by simp
  ultimately show ?thesis by fastforce
qed

lemma consolidateMemories_frame:
  "interactions (consolidateMemories now s) = interactions s"
  "emotions (consolidateMemories now s) = emotions s"
  "personalityProfile (consolidateMemories now s) = personalityProfile s"
  by (simp_all add: consolidateMemories_def)

lemma consolidateMemories_memories:
  "memories (consolidateMemories now s) =
     (if interactions s = [] then memories s else keep_important (memories s @ [new_memory now s]))"
  by (simp add: consolidateMemories_def slice_last_def)

lemma bounded_apply_call: "bounded_history s \<Longrightarrow> bounded_history (apply_call c s)"
  by (cases c)
     (auto simp: bounded_history_def recordInteraction_def recordEmotion_def
        consolidateMemories_def length_push_capped length_keep_important)

lemma bounded_apply_calls: "bounded_history s \<Longrightarrow> bounded_history (apply_calls cs s)"
  unfolding apply_calls_def
  by (induction cs arbitrary: s) (auto simp: bounded_apply_call)

lemma bounded_new: "bounded_history AbhayMemoryTrainer"
  by (simp add: bounded_history_def AbhayMemoryTrainer_def)

text \<open>The trainer with a full memory list, field by field.\<close>

lemma full_trainer_eq:
  "full_trainer =
     \<lparr> interactions = [click0, click1], emotions = [],
       memories = map old_memory [1, 2, 3, 4, 5, 6, 7, 8, 9, 10, 11, 12, 13, 14, 15, 16, 17, 18, 19, 20],
       personalityProfile = personalityProfile AbhayMemoryTrainer \<rparr>"
  by (simp add: full_trainer_def apply_calls_def consolidateMemories_def recordInteraction_def
      push_capped_def AbhayMemoryTrainer_def slice_last_def keep_important_def new_memory_def
      calculateImportance_def new_interaction_def getCurrentEmotion_def old_memory_def
      click0_def click1_def Let_def)

lemma memories_full_trainer:
  "memories full_trainer = map old_memory [1, 2, 3, 4, 5, 6, 7, 8, 9, 10, 11, 12, 13, 14, 15, 16, 17, 18, 19, 20]"
  by (subst full_trainer_eq) simp

lemma interactions_full_trainer: "interactions full_trainer = [click0, click1]"
  by (subst full_trainer_eq) simp

lemma emotions_full_trainer: "emotions full_trainer = []"
  by (subst full_trainer_eq) simp

lemma new_memory_full:
  "new_memory much_later full_trainer =
     \<lparr> m_interactions = [click0, click1], m_emotions = [], m_timestamp = much_later, m_importance = 0.2 \<rparr>"
  by (simp add: interactions_full_trainer emotions_full_trainer slice_last_def new_memory_def
      calculateImportance_def click0_def click1_def much_later_def Let_def)

lemma memories_after_full:
  "memories (consolidateMemories much_later full_trainer) =
     new_memory much_later full_trainer
     # map old_memory [1, 2, 3, 4, 5, 6, 7, 8, 9, 10, 11, 12, 13, 14, 15, 16, 17, 18, 19]"
  by (simp add: consolidateMemories_memories interactions_full_trainer memories_full_trainer
      new_memory_full keep_important_def old_memory_def)

lemma old_memory_20_dropped:
  "old_memory 20 \<notin> set (memories (consolidateMemories much_later full_trainer))"
  by (simp add: memories_after_full new_memory_full old_memory_def)

text \<open>
  C10. After any sequence of \<open>recordInteraction\<close>, \<open>recordEmotion\<close> and
  \<open>consolidateMemories\<close> calls on a new trainer, the interactions list holds at most
  100 entries, the emotions list at most 50 and the memories list at most 20, and
  each call keeps these bounds. The two history lists drop from the front (the new
  list is an end piece of the old one with the new record appended), and a memory that
  consolidation drops is no more important than any memory it keeps.
\<close>

theorem history_stays_bounded:
  "bounded_history (apply_calls cs AbhayMemoryTrainer)
   \<and> (bounded_history s \<longrightarrow> bounded_history (apply_call c s))
   \<and> suffix (interactions (recordInteraction now ty d s)) (interactions s @ [new_interaction now ty d s])
   \<and> suffix (emotions (recordEmotion now hour e s)) (emotions s @ [new_emotionRecord now hour e s])
   \<and> (interactions s \<noteq> [] \<longrightarrow>
        (\<forall>k \<in> set (memories (consolidateMemories now s)).
         \<forall>x \<in># mset (memories s @ [new_memory now s]) - mset (memories (consolidateMemories now s)).
           m_importance x \<le> m_importance k))"
proof (intro conjI impI)
  show "bounded_history (apply_calls cs AbhayMemoryTrainer)"
    by (rule bounded_apply_calls [OF bounded_new])
  show "bounded_history (apply_call c s)" if "bounded_history s"
    using that by (rule bounded_apply_call)
  show "suffix (interactions (recordInteraction now ty d s)) (interactions s @ [new_interaction now ty d s])"
  proof -
    have "interactions (recordInteraction now ty d s)
            = push_capped 100 (new_interaction now ty d s) (interactions s)"
      by (simp add: recordInteraction_def)
    then show ?thesis by (simp only: suffix_push_capped)
  qed
  show "suffix (emotions (recordEmotion now hour e s)) (emotions s @ [new_emotionRecord now hour e s])"
  proof -
    have "emotions (recordEmotion now hour e s)
            = push_capped 50 (new_emotionRecord now hour e s) (emotions s)"
      by (simp add: recordEmotion_def)
    then show ?thesis by (simp only: suffix_push_capped)
  qed
  show "\<forall>k \<in> set (memories (consolidateMemories now s)).
         \<forall>x \<in># mset (memories s @ [new_memory now s]) - mset (memories (consolidateMemories now s)).
           m_importance x \<le> m_importance k" if "interactions s \<noteq> []"
  proof -
    have "memories (consolidateMemories now s) = keep_important (memories s @ [new_memory now s])"
      using that by (simp add: consolidateMemories_memories)
    then show ?thesis using keep_important_lowest_dropped by metis
  qed
qed

text \<open>
  C10, at the trainer with twenty memories and two clicks: it is within the bounds,
  stays so after one more consolidation, and that consolidation drops the twentieth
  old memory, which is no more important than the first one, which it keeps.
\<close>

theorem history_stays_bounded_witness:
  "bounded_history full_trainer
   \<and> bounded_history (apply_call (CallConsolidateMemories much_later) full_trainer)
   \<and> interactions full_trainer \<noteq> []
   \<and> old_memory 1 \<in> set (memories (consolidateMemories much_later full_trainer))
   \<and> old_memory 20 \<in># mset (memories full_trainer @ [new_memory much_later full_trainer])
                          - mset (memories (consolidateMemories much_later full_trainer))
   \<and> m_importance (old_memory 20) \<le> m_importance (old_memory 1)"
proof -
  have b: "bounded_history full_trainer"
    by (simp add: bounded_history_def interactions_full_trainer emotions_full_trainer
        memories_full_trainer)
  have i: "interactions full_trainer \<noteq> []"
    by (simp add: interactions_full_trainer)
  have k: "old_memory 1 \<in> set (memories (consolidateMemories much_later full_trainer))"
    by (simp add: memories_after_full)
  have x: "old_memory 20 \<in># mset (memories full_trainer @ [new_memory much_later full_trainer])
                          - mset (memories (consolidateMemories much_later full_trainer))"
    by (simp add: memories_after_full memories_full_trainer)
  note h = history_stays_bounded [of _ full_trainer "CallConsolidateMemories much_later" much_later]
  from h b have "bounded_history (apply_call (CallConsolidateMemories much_later) full_trainer)"
    by blast
  moreover from h i k x have "m_importance (old_memory 20) \<le> m_importance (old_memory 1)"
    by blast
  ultimately show ?thesis using b i k x by blast
qed


section \<open>Writing twice\<close>

lemma new_interaction_recordInteraction:
  "new_interaction now2 ty2 d2 (recordInteraction now ty d s) = new_interaction now2 ty2 d2 s"
  by (simp add: new_interaction_def recordInteraction_def getCurrentEmotion_def)

text \<open>
  C2, as stated, fails: the same payload, carrying the same token \<open>T\<close>, recorded twice
  at the same instant on a new trainer leaves two interactions, not one.
\<close>

theorem idempotent_write_counterexample:
  "length (interactions
     (recordInteraction 1 ''write'' (''T'', ''chunk'')
       (recordInteraction 1 ''write'' (''T'', ''chunk'') AbhayMemoryTrainer))) = 2"
  by (simp add: recordInteraction_def push_capped_def AbhayMemoryTrainer_def Let_def)

text \<open>
  C2, amended. \<open>recordInteraction\<close> takes no idempotency token and appends one
  record on every call: on a trainer holding fewer than 99 interactions, two calls
  with the same type and payload leave both records at the end of the list.
\<close>

theorem recordInteraction_twice_appends_twice:
  "length (interactions s) < 99 \<Longrightarrow>
     interactions (recordInteraction now2 ty d (recordInteraction now1 ty d s))
       = interactions s @ [new_interaction now1 ty d s, new_interaction now2 ty d s]"
proof -
  assume n: "length (interactions s) < 99"
  let ?s1 = "recordInteraction now1 ty d s"
  have one: "interactions ?s1 = interactions s @ [new_interaction now1 ty d s]"
    using n by (simp add: recordInteraction_def push_capped_def Let_def)
  have "interactions (recordInteraction now2 ty d ?s1)
          = interactions ?s1 @ [new_interaction now2 ty d ?s1]"
    using n one by (simp add: recordInteraction_def [of now2] push_capped_def Let_def)
  then show ?thesis
    by (simp add: one new_interaction_recordInteraction)
qed

text \<open>C2, amended, on the trainer with two clicks: a third and a fourth equal click.\<close>

theorem recordInteraction_twice_appends_twice_witness:
  "length (interactions full_trainer) < 99
   \<and> interactions (recordInteraction 5 ''click'' () (recordInteraction 5 ''click'' () full_trainer))
       = [click0, click1,
          \<lparr> i_type = ''click'', i_data = (), i_timestamp = 5, i_emotion = ''neutral'' \<rparr>,
          \<lparr> i_type = ''click'', i_data = (), i_timestamp = 5, i_emotion = ''neutral'' \<rparr>]"
proof -
  have n: "length (interactions full_trainer) < 99"
    by (simp add: interactions_full_trainer)
  have "new_interaction 5 ''click'' () full_trainer
          = \<lparr> i_type = ''click'', i_data = (), i_timestamp = 5, i_emotion = ''neutral'' \<rparr>"
    by (simp add: new_interaction_def getCurrentEmotion_def emotions_full_trainer)
  then show ?thesis
    using n recordInteraction_twice_appends_twice [OF n, of 5 "''click''" "()" 5]
    by (simp add: interactions_full_trainer)
qed

section \<open>The personality profile\<close>

lemma list_all_update:
  "list_all P al \<Longrightarrow> P (k, v) \<Longrightarrow> list_all P (AList.update k v al)"
  by (induction al) auto

lemma map_fst_update_own:
  "k \<in> fst ` set al \<Longrightarrow> map fst (AList.update k v al) = map fst al"
  by (induction al) auto

lemma map_of_in_range:
  "weights_in_range p \<Longrightarrow> map_of p k = Some w \<Longrightarrow> \<exists>x. w = Num x \<and> 0 \<le> x \<and> x \<le> 1"
  by (induction p) (auto simp: weights_in_range_def split: if_splits jsnum.splits)

lemma decay_in_range:
  "weights_in_range p \<Longrightarrow>
   weights_in_range (map (\<lambda>(key, w). if key \<noteq> emotion then (key, max_zero_minus w decay) else (key, w)) p)"
  by (induction p) (auto simp: weights_in_range_def decay_def split: jsnum.splits if_splits)

lemma decay_keys:
  "map fst (map (\<lambda>(key, w). if key \<noteq> emotion then (key, max_zero_minus w decay) else (key, w)) p)
     = map fst p"
  by (induction p) auto

text \<open>
  For an emotion that is a trait of the profile, or that is no property name of
  \<open>Object.prototype\<close>, an update keeps every weight between 0 and 1 and keeps the keys.
\<close>

lemma updatePersonalityProfile_bounded:
  assumes r: "weights_in_range p"
    and e: "emotion \<in> fst ` set p \<or> emotion \<notin> set object_prototype_names"
  shows "weights_in_range (updatePersonalityProfile emotion p)
         \<and> map fst (updatePersonalityProfile emotion p) = map fst p"
proof -
  let ?decay = "map (\<lambda>(key, w). if key \<noteq> emotion then (key, max_zero_minus w decay) else (key, w))"
  have "\<exists>p1. updatePersonalityProfile emotion p = ?decay p1
          \<and> weights_in_range p1 \<and> map fst p1 = map fst p"
  proof (cases "map_of p emotion")
    case None
    then have "emotion \<notin> fst ` set p" by (simp add: map_of_eq_None_iff)
    with e None have "get_property p emotion = Undefined"
      by (simp add: get_property_def)
    then have "updatePersonalityProfile emotion p = ?decay p"
      by (simp add: updatePersonalityProfile_def)
    then show ?thesis using r by blast
  next
    case (Some w)
    then obtain x where w: "w = Num x" "0 \<le> x" "x \<le> 1"
      using map_of_in_range [OF r] by blast
    have own: "emotion \<in> fst ` set p"
      using Some by (metis domI dom_map_of_conv_image_fst)
    have g: "get_property p emotion = Own (Num x)"
      using Some w by (simp add: get_property_def)
    let ?p1 = "AList.update emotion (Math_min 1 (Num (x + increment))) p"
    have r1: "weights_in_range ?p1"
      using r w unfolding weights_in_range_def
      by (intro list_all_update) (auto simp: increment_def)
    have k1: "map fst ?p1 = map fst p"
      using own by (rule map_fst_update_own)
    have "updatePersonalityProfile emotion p = ?decay (if x \<noteq> 0 then ?p1 else p)"
      using g own by (simp add: updatePersonalityProfile_def set_property_def)
    then show ?thesis using r r1 k1 by (cases "x = 0") auto
  qed
  then obtain p1 where p1: "updatePersonalityProfile emotion p = ?decay p1"
    "weights_in_range p1" "map fst p1 = map fst p" by blast
  show ?thesis
    unfolding p1(1) using decay_in_range [OF p1(2), of emotion] decay_keys [of emotion p1] p1(3)
    by simp
qed

lemma weights_in_range_new: "weights_in_range (personalityProfile AbhayMemoryTrainer)"
  by (simp add: weights_in_range_def AbhayMemoryTrainer_def)

text \<open>
  C7 fails at the emotion \<open>toString\<close>. \<open>this.personalityProfile['toString']\<close> finds the
  function inherited from \<open>Object.prototype\<close>, so the guard passes and the assignment
  gives the profile a sixth key whose weight is \<open>NaN\<close>.
\<close>

theorem recordEmotion_inherited_name_adds_key:
  "personalityProfile (recordEmotion 0 9 ''toString'' (AbhayMemoryTrainer :: unit trainer)) =
     [(''melancholic'', Num 0.795), (''romantic'', Num 0.695), (''nostalgic'', Num 0.595),
      (''caring'', Num 0.895), (''empathetic'', Num 0.945), (''toString'', NaN)]
   \<and> \<not> weights_in_range
         (personalityProfile (recordEmotion 0 9 ''toString'' (AbhayMemoryTrainer :: unit trainer)))"
proof -
  have "updatePersonalityProfile ''toString'' (personalityProfile (AbhayMemoryTrainer :: unit trainer)) =
     [(''melancholic'', Num 0.795), (''romantic'', Num 0.695), (''nostalgic'', Num 0.595),
      (''caring'', Num 0.895), (''empathetic'', Num 0.945), (''toString'', NaN)]"
    by (simp add: updatePersonalityProfile_def AbhayMemoryTrainer_def get_property_def
        set_property_def object_prototype_names_def increment_def decay_def)
  then show ?thesis
    by (simp add: recordEmotion_def weights_in_range_def)
qed


section \<open>Consolidation is not a retention sweep\<close>

text \<open>
  C5, as stated, fails. On the trainer with twenty memories, consolidating much later
  drops the twentieth memory, so the frame condition fails when the memories count as
  long-term; and it keeps the first, more than a day old, so the expiry fails when
  they count as short-term.
\<close>

theorem retention_sweep_counterexample:
  "\<not> spec_retention_sweep (\<lambda>m. long_term) m_timestamp day much_later
        (memories full_trainer) (memories (consolidateMemories much_later full_trainer))
   \<and> \<not> spec_retention_sweep (\<lambda>m. short_term) m_timestamp day much_later
        (memories full_trainer) (memories (consolidateMemories much_later full_trainer))"
proof -
  let ?after = "memories (consolidateMemories much_later full_trainer)"
  have before: "old_memory 20 \<in> set (memories full_trainer)"
    by (simp add: memories_full_trainer)
  have kept: "old_memory 1 \<in> set ?after"
    by (simp add: memories_after_full)
  have expired: "much_later - m_timestamp (old_memory 1) > day"
    by (simp add: old_memory_def much_later_def day_def)
  have "\<not> list_all (\<lambda>c. (\<lambda>m. long_term) c = short_term \<or> c \<in> set ?after) (memories full_trainer)"
    using before old_memory_20_dropped by (auto simp: list_all_iff)
  moreover have "\<not> list_all (\<lambda>c. \<not> ((\<lambda>m. short_term) c = short_term \<and> much_later - m_timestamp c > day)) ?after"
    using kept expired by (auto simp: list_all_iff)
  ultimately show ?thesis by (simp add: spec_retention_sweep_def)
qed

text \<open>
  C5, amended. \<open>consolidateMemories\<close> reads no retention class and no age. It leaves
  interactions, emotions and the profile as they are; without interactions it leaves
  the memories as they are; otherwise it adds one new memory and keeps the (at most)
  twenty most important, in descending order of importance: what it keeps comes from
  the old list and the new memory, and whatever it drops is no more important than
  anything it keeps.
\<close>

theorem consolidateMemories_keeps_most_important:
  "interactions (consolidateMemories now s) = interactions s
   \<and> emotions (consolidateMemories now s) = emotions s
   \<and> personalityProfile (consolidateMemories now s) = personalityProfile s
   \<and> (interactions s = [] \<longrightarrow> memories (consolidateMemories now s) = memories s)
   \<and> (interactions s \<noteq> [] \<longrightarrow>
        mset (memories (consolidateMemories now s)) \<subseteq># mset (memories s @ [new_memory now s])
        \<and> length (memories (consolidateMemories now s)) = min 20 (length (memories s) + 1)
        \<and> sorted_wrt (\<lambda>a b. m_importance b \<le> m_importance a) (memories (consolidateMemories now s))
        \<and> (\<forall>k \<in> set (memories (consolidateMemories now s)).
            \<forall>x \<in># mset (memories s @ [new_memory now s]) - mset (memories (consolidateMemories now s)).
              m_importance x \<le> m_importance k))"
proof (intro conjI impI)
  assume ne: "interactions s \<noteq> []"
  let ?all = "memories s @ [new_memory now s]"
  have eq: "memories (consolidateMemories now s) = keep_important ?all"
    using ne by (simp add: consolidateMemories_memories)
  show "mset (memories (consolidateMemories now s)) \<subseteq># mset ?all"
    unfolding eq by (rule keep_important_subset)
  show "length (memories (consolidateMemories now s)) = min 20 (length (memories s) + 1)"
    unfolding eq by (simp add: length_keep_important)
  show "sorted_wrt (\<lambda>a b. m_importance b \<le> m_importance a) (memories (consolidateMemories now s))"
    unfolding eq by (rule keep_important_descending)
  show "\<forall>k \<in> set (memories (consolidateMemories now s)).
          \<forall>x \<in># mset ?all - mset (memories (consolidateMemories now s)).
            m_importance x \<le> m_importance k"
    unfolding eq using keep_important_lowest_dropped by blast
qed (simp_all add: consolidateMemories_frame consolidateMemories_memories)

text \<open>
  C5, amended, on the trainer with twenty memories: the list stays at twenty, and on
  a new trainer, which has no interactions, nothing changes.
\<close>

theorem consolidateMemories_keeps_most_important_witness:
  "interactions full_trainer \<noteq> []
   \<and> length (memories (consolidateMemories much_later full_trainer)) = 20
   \<and> interactions (consolidateMemories much_later full_trainer) = [click0, click1]
   \<and> interactions (AbhayMemoryTrainer :: unit trainer) = []
   \<and> memories (consolidateMemories much_later (AbhayMemoryTrainer :: unit trainer)) = []"
proof -
  have i: "interactions full_trainer \<noteq> []"
    by (simp add: interactions_full_trainer)
  have n: "interactions (AbhayMemoryTrainer :: unit trainer) = []"
    by (simp add: AbhayMemoryTrainer_def)
  have m: "memories (AbhayMemoryTrainer :: unit trainer) = []"
    by (simp add: AbhayMemoryTrainer_def)
  from consolidateMemories_keeps_most_important [of much_later full_trainer] i
  have "length (memories (consolidateMemories much_later full_trainer)) = 20"
    and "interactions (consolidateMemories much_later full_trainer) = [click0, click1]"
    by (simp_all add: memories_full_trainer interactions_full_trainer)
  moreover from consolidateMemories_keeps_most_important
      [of much_later "AbhayMemoryTrainer :: unit trainer"] n m
  have "memories (consolidateMemories much_later (AbhayMemoryTrainer :: unit trainer)) = []"
    by simp
  ultimately show ?thesis using i n by simp
qed

section \<open>Retrieval by keyword\<close>

lemma toLowerCase_ascii_append:
  "toLowerCase_ascii (xs @ ys) = toLowerCase_ascii xs @ toLowerCase_ascii ys"
  by (simp add: toLowerCase_ascii_def)

lemma str_includes_middle:
  "str_includes (toLowerCase_ascii (pre @ w @ post)) (toLowerCase_ascii w)"
  unfolding str_includes_def toLowerCase_ascii_append by (rule sublist_appendI)

lemma str_includes_empty: "str_includes text []"
  by (simp add: str_includes_def)

lemma lower_input: "toLowerCase_ascii ''input'' = ''input''"
  by (simp add: toLowerCase_ascii_def toLowerCase_ascii_char_def)

lemma split_input: "split_space (toLowerCase_ascii ''input'') = [''input'']"
  by (simp add: lower_input)

lemma split_empty: "split_space (toLowerCase_ascii []) = [[]]"
  by (simp add: toLowerCase_ascii_def)

lemma JSON_chunk_A_input:
  \<open>JSON_chunk_A = ''{"interactions":[{"type":"'' @ ''input'' @ ''","data":{"owner_id":"A","companion_id":"X"},"timestamp":0,"emotion":"neutral"}],"emotions":[],"timestamp":3600000,"importance":0.1}''\<close>
  by (simp add: JSON_chunk_A_def)

lemma JSON_chunk_A_later_input:
  \<open>JSON_chunk_A_later = ''{"interactions":[{"type":"'' @ ''input'' @ ''","data":{"owner_id":"A","companion_id":"X"},"timestamp":0,"emotion":"neutral"}],"emotions":[],"timestamp":7200000,"importance":0.1}''\<close>
  by (simp add: JSON_chunk_A_later_def)

lemma chunk_A_text: "str_includes (toLowerCase_ascii (JSON_of_A chunk_A)) ''input''"
proof -
  have "chunk_A \<noteq> chunk_A_later" by (simp add: chunk_A_def chunk_A_later_def)
  then have "JSON_of_A chunk_A = JSON_chunk_A" by (simp add: JSON_of_A_def)
  moreover have "str_includes (toLowerCase_ascii JSON_chunk_A) ''input''"
    using str_includes_middle [of _ "''input''"] unfolding lower_input
    by (subst JSON_chunk_A_input) blast
  ultimately show ?thesis by simp
qed

lemma chunk_A_later_text: "str_includes (toLowerCase_ascii (JSON_of_A chunk_A_later)) ''input''"
proof -
  have "JSON_of_A chunk_A_later = JSON_chunk_A_later" by (simp add: JSON_of_A_def)
  moreover have "str_includes (toLowerCase_ascii JSON_chunk_A_later) ''input''"
    using str_includes_middle [of _ "''input''"] unfolding lower_input
    by (subst JSON_chunk_A_later_input) blast
  ultimately show ?thesis by simp
qed

lemma memories_trainer_A: "memories trainer_A = [chunk_A, chunk_A_later]"
  by (simp add: trainer_A_def apply_calls_def consolidateMemories_def recordInteraction_def
      push_capped_def AbhayMemoryTrainer_def slice_last_def keep_important_def new_memory_def
      calculateImportance_def new_interaction_def getCurrentEmotion_def chunk_A_def
      chunk_A_later_def input_A_def Let_def)

lemma found_in_trainer_A:
  "findRelevantMemories toLowerCase_ascii JSON_of_A (memories trainer_A) ''input''
     = [chunk_A, chunk_A_later]"
  using chunk_A_text chunk_A_later_text
  by (simp add: findRelevantMemories_def is_relevant_def split_input memories_trainer_A Let_def)

lemma is_relevant_iff:
  "is_relevant lower json ws m \<longleftrightarrow> (\<exists>w\<in>set ws. str_includes (lower (json m)) w)"
  by (simp add: is_relevant_def list_ex_iff)

lemma in_take_after_few:
  "length xs < n \<Longrightarrow> m \<in> set (take n (xs @ m # ys))"
  by (cases "n - length xs") auto

text \<open>
  C1, as stated, fails. The trainer holds a memory whose data names owner \<open>A\<close>,
  companion \<open>X\<close>. \<open>findRelevantMemories\<close> has no parameter for the caller; asked for
  \<open>input\<close>, by whomever, it returns that memory.
\<close>

theorem namespace_isolation_counterexample:
  "i_data (hd (m_interactions chunk_A)) = \<lparr> owner_id = ''A'', companion_id = ''X'' \<rparr>
   \<and> chunk_A \<in> set (memories trainer_A)
   \<and> chunk_A \<in> set (findRelevantMemories toLowerCase_ascii JSON_of_A (memories trainer_A) ''input'')"
proof -
  have "i_data (hd (m_interactions chunk_A)) = \<lparr> owner_id = ''A'', companion_id = ''X'' \<rparr>"
    by (simp add: chunk_A_def input_A_def)
  moreover have "chunk_A \<in> set (memories trainer_A)"
    by (simp add: memories_trainer_A)
  moreover have "chunk_A \<in> set (findRelevantMemories toLowerCase_ascii JSON_of_A (memories trainer_A) ''input'')"
    by (simp add: found_in_trainer_A)
  ultimately show ?thesis by blast
qed

text \<open>
  C1, amended. \<open>findRelevantMemories\<close> works on the one list of memories and checks no
  namespace: a memory of the list whose lower-cased JSON text contains a word of the
  lower-cased input is returned, whatever its data says, as long as fewer than three
  matching memories stand before it; and when the lower-cased input has an empty piece
  between its spaces, as the empty input has, the first three memories are returned
  whatever they contain. This holds whatever \<open>toLowerCase\<close> and \<open>JSON.stringify\<close> do.
\<close>

theorem findRelevantMemories_checks_no_namespace:
  "(w \<in> set (split_space (lower input))
      \<and> str_includes (lower (json m)) w
      \<and> length (filter (is_relevant lower json (split_space (lower input))) pre) < 3
     \<longrightarrow> m \<in> set (findRelevantMemories lower json (pre @ m # post) input))
   \<and> ([] \<in> set (split_space (lower input))
     \<longrightarrow> findRelevantMemories lower json ms input = take 3 ms)"
proof (intro conjI impI)
  let ?ws = "split_space (lower input)"
  assume a: "w \<in> set ?ws \<and> str_includes (lower (json m)) w
             \<and> length (filter (is_relevant lower json ?ws) pre) < 3"
  then have "is_relevant lower json ?ws m" by (auto simp: is_relevant_iff)
  then have f: "filter (is_relevant lower json ?ws) (pre @ m # post)
               = filter (is_relevant lower json ?ws) pre @ m # filter (is_relevant lower json ?ws) post"
    by simp
  have eq: "findRelevantMemories lower json (pre @ m # post) input
              = take 3 (filter (is_relevant lower json ?ws) (pre @ m # post))"
    by (simp add: findRelevantMemories_def Let_def)
  show "m \<in> set (findRelevantMemories lower json (pre @ m # post) input)"
    unfolding eq f using a by (intro in_take_after_few) blast
next
  let ?ws = "split_space (lower input)"
  assume e: "[] \<in> set ?ws"
  have "is_relevant lower json ?ws k" for k
    using e str_includes_empty by (auto simp: is_relevant_iff)
  then have "filter (is_relevant lower json ?ws) ms = ms" by simp
  then show "findRelevantMemories lower json ms input = take 3 ms"
    by (simp add: findRelevantMemories_def Let_def)
qed

text \<open>
  C1, amended, on the trainer that holds the two memories of owner \<open>A\<close>, with the
  input \<open>input\<close> and with the empty input.
\<close>

theorem findRelevantMemories_checks_no_namespace_witness:
  "''input'' \<in> set (split_space (toLowerCase_ascii ''input''))
   \<and> str_includes (toLowerCase_ascii (JSON_of_A chunk_A_later)) ''input''
   \<and> length (filter (is_relevant toLowerCase_ascii JSON_of_A
                (split_space (toLowerCase_ascii ''input''))) [chunk_A]) < 3
   \<and> chunk_A_later \<in> set (findRelevantMemories toLowerCase_ascii JSON_of_A
                            ([chunk_A] @ chunk_A_later # []) ''input'')
   \<and> [] \<in> set (split_space (toLowerCase_ascii []))
   \<and> findRelevantMemories toLowerCase_ascii JSON_of_A (memories trainer_A) []
       = [chunk_A, chunk_A_later]"
proof -
  have 1: "''input'' \<in> set (split_space (toLowerCase_ascii ''input''))"
    by (simp add: split_input)
  have 3: "length (filter (is_relevant toLowerCase_ascii JSON_of_A
                (split_space (toLowerCase_ascii ''input''))) [chunk_A]) < 3"
    by simp
  have 4: "[] \<in> set (split_space (toLowerCase_ascii []))"
    by (simp add: split_empty)
  note h = findRelevantMemories_checks_no_namespace
      [of "''input''" toLowerCase_ascii "''input''" JSON_of_A chunk_A_later "[chunk_A]" "[]"]
  note e = findRelevantMemories_checks_no_namespace
      [of _ toLowerCase_ascii "[]" JSON_of_A _ _ _ "memories trainer_A"]
  from h 1 chunk_A_later_text 3
  have "chunk_A_later \<in> set (findRelevantMemories toLowerCase_ascii JSON_of_A
                            ([chunk_A] @ chunk_A_later # []) ''input'')"
    by blast
  moreover from e 4
  have "findRelevantMemories toLowerCase_ascii JSON_of_A (memories trainer_A) []
          = take 3 (memories trainer_A)"
    by blast
  then have "findRelevantMemories toLowerCase_ascii JSON_of_A (memories trainer_A) []
          = [chunk_A, chunk_A_later]"
    by (simp add: memories_trainer_A)
  ultimately show ?thesis using 1 chunk_A_later_text 3 4 by blast
qed

text \<open>
  C4, as stated, fails. The two memories of the trainer have the same content and so
  the same score under any scoring of content; the ranking of the specification puts
  the later one first, \<open>findRelevantMemories\<close> returns them in stored order, the
  earlier one first.
\<close>

theorem hybrid_ranking_counterexample:
  "findRelevantMemories toLowerCase_ascii JSON_of_A (memories trainer_A) ''input''
     = [chunk_A, chunk_A_later]
   \<and> spec_hybrid_rank (\<lambda>c. 1) (\<lambda>c. 1) m_timestamp (memories trainer_A) = [chunk_A_later, chunk_A]"
proof -
  have "spec_hybrid_rank (\<lambda>c. 1) (\<lambda>c. 1) m_timestamp [chunk_A, chunk_A_later] = [chunk_A_later, chunk_A]"
    by (simp add: spec_hybrid_rank_def spec_hybrid_score_def chunk_A_def chunk_A_later_def)
  then show ?thesis using found_in_trainer_A by (simp add: memories_trainer_A)
qed

text \<open>
  C4, amended. \<open>findRelevantMemories\<close> computes no score and breaks no tie: it returns
  the first three memories, in stored order, whose lower-cased JSON text contains at
  least one of the words of the lower-cased input split at single spaces. This holds
  whatever \<open>toLowerCase\<close> and \<open>JSON.stringify\<close> do.
\<close>

theorem findRelevantMemories_first_three_matches:
  "prefix (findRelevantMemories lower json ms input)
          (filter (is_relevant lower json (split_space (lower input))) ms)
   \<and> length (findRelevantMemories lower json ms input)
       = min 3 (length (filter (is_relevant lower json (split_space (lower input))) ms))
   \<and> subseq (findRelevantMemories lower json ms input) ms
   \<and> (\<forall>m \<in> set (findRelevantMemories lower json ms input).
        \<exists>w \<in> set (split_space (lower input)). str_includes (lower (json m)) w)"
proof (intro conjI)
  let ?P = "is_relevant lower json (split_space (lower input))"
  have eq: "findRelevantMemories lower json ms input = take 3 (filter ?P ms)"
    by (simp add: findRelevantMemories_def Let_def)
  show "prefix (findRelevantMemories lower json ms input) (filter ?P ms)"
    unfolding eq by (rule take_is_prefix)
  show "length (findRelevantMemories lower json ms input) = min 3 (length (filter ?P ms))"
    unfolding eq by simp
  have "subseq (take 3 (filter ?P ms)) (filter ?P ms)"
    by (simp add: prefix_imp_subseq take_is_prefix)
  then show "subseq (findRelevantMemories lower json ms input) ms"
    unfolding eq using subseq_filter_left subseq_order.order_trans by blast
  show "\<forall>m \<in> set (findRelevantMemories lower json ms input).
          \<exists>w \<in> set (split_space (lower input)). str_includes (lower (json m)) w"
  proof
    fix m assume "m \<in> set (findRelevantMemories lower json ms input)"
    then have "m \<in> set (filter ?P ms)" unfolding eq by (rule in_set_takeD)
    then show "\<exists>w \<in> set (split_space (lower input)). str_includes (lower (json m)) w"
      by (simp add: is_relevant_iff)
  qed
qed

text \<open>C4, amended, on the trainer that holds the two memories of owner \<open>A\<close>.\<close>

theorem findRelevantMemories_first_three_matches_witness:
  "chunk_A_later \<in> set (findRelevantMemories toLowerCase_ascii JSON_of_A (memories trainer_A) ''input'')
   \<and> (\<exists>w \<in> set (split_space (toLowerCase_ascii ''input'')).
        str_includes (toLowerCase_ascii (JSON_of_A chunk_A_later)) w)
   \<and> subseq (findRelevantMemories toLowerCase_ascii JSON_of_A (memories trainer_A) ''input'')
        (memories trainer_A)"
proof -
  have m: "chunk_A_later \<in> set (findRelevantMemories toLowerCase_ascii JSON_of_A (memories trainer_A) ''input'')"
    by (simp add: found_in_trainer_A)
  note h = findRelevantMemories_first_three_matches
      [of toLowerCase_ascii JSON_of_A "memories trainer_A" "''input''"]
  from h m have "\<exists>w \<in> set (split_space (toLowerCase_ascii ''input'')).
        str_includes (toLowerCase_ascii (JSON_of_A chunk_A_later)) w" by blast
  moreover from h have "subseq (findRelevantMemories toLowerCase_ascii JSON_of_A (memories trainer_A) ''input'')
        (memories trainer_A)"
    by blast
  ultimately show ?thesis using m by blast
qed

section \<open>Timers\<close>

lemma timer_step_keeps_profile:
  "personalityProfile (memoryTrainer (timer_step t pg)) = personalityProfile (memoryTrainer pg)"
  by (cases t) (simp_all add: updateEmotionalState_def emotionalHeartbeat_def consolidateMemories_frame)

lemma timers_only_keep_profile:
  "list_all (\<lambda>ev. case ev of Timer t \<Rightarrow> True | Request r \<Rightarrow> False) evs \<Longrightarrow>
   personalityProfile (memoryTrainer (run evs pg)) = personalityProfile (memoryTrainer pg)"
  unfolding run_def
  by (induction evs arbitrary: pg) (auto simp: timer_step_keeps_profile split: event.splits)

text \<open>
  C9, as stated, fails. On a new page the 30-second timer with the draw \<open>1/2\<close> turns
  \<open>emotionalState\<close> from \<open>melancholic_caring\<close> into \<open>romantic\<close>; after one click the
  60-second timer adds a memory; the heartbeat sets \<open>lastHeartbeat\<close>, and after
  \<open>setEmotionalState('broken')\<close> it raises \<open>glitchIntensity\<close> from 0.3 to 1.
\<close>

theorem timers_mutate_state_counterexample:
  "emotionalState (new_page 0 :: unit page) = ''melancholic_caring''
   \<and> emotionalState (timer_step (PersonalityTimer (1/2)) (new_page 0 :: unit page)) = ''romantic''
   \<and> memories (memoryTrainer (request_step (RecordInteraction 0 ''click'' ()) (new_page 0))) = []
   \<and> length (memories (memoryTrainer (timer_step (ConsolidationTimer 60000)
        (request_step (RecordInteraction 0 ''click'' ()) (new_page 0))))) = 1
   \<and> lastHeartbeat (timer_step (HeartbeatTimer 2000) (new_page 0 :: unit page)) = 2000
   \<and> glitchIntensity (request_step (SetEmotionalState ''broken'') (new_page 0 :: unit page)) = 0.3
   \<and> glitchIntensity (timer_step (HeartbeatTimer 2000)
        (request_step (SetEmotionalState ''broken'') (new_page 0 :: unit page))) = 1"
  by (simp add: new_page_def updateEmotionalState_def emotion_weights_def emotionalHeartbeat_def
      setEmotionalState_def consolidateMemories_def recordInteraction_def push_capped_def
      slice_last_def keep_important_def AbhayMemoryTrainer_def Let_def)

text \<open>
  C9, amended. The timers do change shared state: \<open>emotionalState\<close>, the memories,
  \<open>lastHeartbeat\<close> and \<open>glitchIntensity\<close>. What no timer changes is the trainer's
  \<open>personalityProfile\<close>, its interactions and emotions, and \<open>currentEmotionalState\<close>:
  a step that changes the profile is a \<open>recordEmotion\<close> request, and a run of timer
  steps alone leaves the profile as it was.
\<close>

theorem only_recordEmotion_changes_profile:
  "personalityProfile (memoryTrainer (timer_step t pg)) = personalityProfile (memoryTrainer pg)
   \<and> interactions (memoryTrainer (timer_step t pg)) = interactions (memoryTrainer pg)
   \<and> emotions (memoryTrainer (timer_step t pg)) = emotions (memoryTrainer pg)
   \<and> currentEmotionalState (timer_step t pg) = currentEmotionalState pg
   \<and> (personalityProfile (memoryTrainer (step ev pg)) \<noteq> personalityProfile (memoryTrainer pg)
        \<longrightarrow> (\<exists>now hour emotion. ev = Request (RecordEmotion now hour emotion)))
   \<and> (list_all (\<lambda>ev. case ev of Timer t \<Rightarrow> True | Request r \<Rightarrow> False) evs
        \<longrightarrow> personalityProfile (memoryTrainer (run evs pg)) = personalityProfile (memoryTrainer pg))"
proof (intro conjI impI)
  show "personalityProfile (memoryTrainer (timer_step t pg)) = personalityProfile (memoryTrainer pg)"
    by (rule timer_step_keeps_profile)
  show "interactions (memoryTrainer (timer_step t pg)) = interactions (memoryTrainer pg)"
    by (cases t) (simp_all add: updateEmotionalState_def emotionalHeartbeat_def consolidateMemories_frame)
  show "emotions (memoryTrainer (timer_step t pg)) = emotions (memoryTrainer pg)"
    by (cases t) (simp_all add: updateEmotionalState_def emotionalHeartbeat_def consolidateMemories_frame)
  show "currentEmotionalState (timer_step t pg) = currentEmotionalState pg"
    by (cases t) (simp_all add: updateEmotionalState_def emotionalHeartbeat_def)
  show "\<exists>now hour emotion. ev = Request (RecordEmotion now hour emotion)"
    if c: "personalityProfile (memoryTrainer (step ev pg)) \<noteq> personalityProfile (memoryTrainer pg)"
  proof (cases ev)
    case (Timer t')
    then show ?thesis using c by (simp add: timer_step_keeps_profile)
  next
    case (Request r)
    then show ?thesis using c
      by (cases r) (auto simp: recordInteraction_def setEmotionalState_def split: if_splits)
  qed
  show "personalityProfile (memoryTrainer (run evs pg)) = personalityProfile (memoryTrainer pg)"
    if "list_all (\<lambda>ev. case ev of Timer t \<Rightarrow> True | Request r \<Rightarrow> False) evs"
    using that by (rule timers_only_keep_profile)
qed

text \<open>
  C9, amended, on a new page: \<open>recordEmotion('caring')\<close> changes the profile, and the
  three timers one after the other do not.
\<close>

theorem only_recordEmotion_changes_profile_witness:
  "personalityProfile (memoryTrainer (step (Request (RecordEmotion 0 9 ''caring'')) (new_page 0 :: unit page)))
     \<noteq> personalityProfile (memoryTrainer (new_page 0 :: unit page))
   \<and> (\<exists>now hour emotion. (Request (RecordEmotion 0 9 ''caring'') :: unit event)
          = Request (RecordEmotion now hour emotion))
   \<and> list_all (\<lambda>ev. case ev of Timer t \<Rightarrow> True | Request r \<Rightarrow> False)
        [Timer (PersonalityTimer (1/2)), Timer (ConsolidationTimer 60000), Timer (HeartbeatTimer 2000) :: unit event]
   \<and> personalityProfile (memoryTrainer
        (run [Timer (PersonalityTimer (1/2)), Timer (ConsolidationTimer 60000), Timer (HeartbeatTimer 2000)]
           (new_page 0 :: unit page)))
       = personalityProfile (memoryTrainer (new_page 0 :: unit page))"
proof -
  let ?evs = "[Timer (PersonalityTimer (1/2)), Timer (ConsolidationTimer 60000),
               Timer (HeartbeatTimer 2000) :: unit event]"
  have c: "personalityProfile (memoryTrainer (step (Request (RecordEmotion 0 9 ''caring'')) (new_page 0 :: unit page)))
     \<noteq> personalityProfile (memoryTrainer (new_page 0 :: unit page))"
    by (simp add: new_page_def recordEmotion_def updatePersonalityProfile_def AbhayMemoryTrainer_def
        get_property_def set_property_def increment_def decay_def)
  have t: "list_all (\<lambda>ev. case ev of Timer t \<Rightarrow> True | Request r \<Rightarrow> False) ?evs"
    by simp
  note h = only_recordEmotion_changes_profile
      [of _ "new_page 0 :: unit page" "Request (RecordEmotion 0 9 ''caring'')" ?evs]
  from h c have "\<exists>now hour emotion. (Request (RecordEmotion 0 9 ''caring'') :: unit event)
          = Request (RecordEmotion now hour emotion)" by blast
  moreover from h t have "personalityProfile (memoryTrainer (run ?evs (new_page 0 :: unit page)))
       = personalityProfile (memoryTrainer (new_page 0 :: unit page))" by blast
  ultimately show ?thesis using c t by blast
qed


section \<open>Doubles\<close>

lemma ulp_pos: "0 < ulp x"
  by (simp add: ulp_def)

lemma round_ties_even_near: "\<bar>real_of_int (round_ties_even q) - q\<bar> \<le> 1/2"
  unfolding round_ties_even_def Let_def by (auto; linarith)

lemma round_ties_even_nonneg: "0 \<le> q \<Longrightarrow> 0 \<le> round_ties_even q"
  unfolding round_ties_even_def Let_def by auto

lemma round_ties_even_int: "round_ties_even (real_of_int n) = n"
  unfolding round_ties_even_def Let_def by simp

lemma round_ties_even_le: "q \<le> real_of_int n + 1/4 \<Longrightarrow> round_ties_even q \<le> n"
  unfolding round_ties_even_def Let_def by (auto; linarith)

lemma to_double_zero: "to_double 0 = 0"
  by (simp add: to_double_def round_ties_even_def)

lemma to_double_nonneg: "0 \<le> x \<Longrightarrow> 0 \<le> to_double x"
  unfolding to_double_def using ulp_pos [of x] round_ties_even_nonneg [of "x / ulp x"]
  by simp

lemma to_double_near: "\<bar>to_double x - x\<bar> \<le> ulp x / 2"
proof -
  have "to_double x - x = (real_of_int (round_ties_even (x / ulp x)) - x / ulp x) * ulp x"
    using ulp_pos [of x] by (simp add: to_double_def field_simps)
  then have "\<bar>to_double x - x\<bar> = \<bar>real_of_int (round_ties_even (x / ulp x)) - x / ulp x\<bar> * ulp x"
    using ulp_pos [of x] by (simp add: abs_mult)
  also have "\<dots> \<le> 1/2 * ulp x"
    using round_ties_even_near [of "x / ulp x"] ulp_pos [of x] by (intro mult_right_mono) auto
  finally show ?thesis by simp
qed

lemma binade_eq:
  assumes "2 powr real_of_int k \<le> x" "x < 2 powr (real_of_int k + 1)" "- 1022 \<le> k"
  shows "binade x = k"
proof -
  have "0 < x" using assms(1) by (smt (verit) powr_gt_zero)
  then have "\<lfloor>log 2 \<bar>x\<bar>\<rfloor> = k"
    using assms by (simp add: floor_log_eq_powr_iff)
  then show ?thesis using assms(3) by (simp add: binade_def)
qed

lemma ulp_eq:
  assumes "2 powr real_of_int k \<le> x" "x < 2 powr (real_of_int k + 1)" "- 1022 \<le> k"
  shows "ulp x = 2 powr (real_of_int k - 52)"
  using binade_eq [OF assms] by (simp add: ulp_def)

lemma ulp_half: "1/2 \<le> x \<Longrightarrow> x < 1 \<Longrightarrow> ulp x = 1 / 2 ^ 53"
  using ulp_eq [of "-1" x] by (simp add: powr_neg_numeral powr_minus divide_simps)

lemma ulp_one: "1 \<le> x \<Longrightarrow> x < 2 \<Longrightarrow> ulp x = 1 / 2 ^ 52"
  using ulp_eq [of 0 x] by (simp add: powr_neg_numeral)

lemma ulp_two: "2 \<le> x \<Longrightarrow> x < 4 \<Longrightarrow> ulp x = 1 / 2 ^ 51"
  using ulp_eq [of 1 x] by (simp add: powr_neg_numeral)

lemma ulp_quarter: "1/4 \<le> x \<Longrightarrow> x < 1/2 \<Longrightarrow> ulp x = 1 / 2 ^ 54"
  using ulp_eq [of "-2" x] by (simp add: powr_neg_numeral powr_minus divide_simps)

lemma ulp_small: "0 < x \<Longrightarrow> x < 2 \<Longrightarrow> ulp x \<le> 1 / 2 ^ 52"
proof -
  assume x: "0 < x" "x < 2"
  have "log 2 x < 1" using x by (simp add: log_less_iff)
  then have "\<lfloor>log 2 \<bar>x\<bar>\<rfloor> \<le> 0" using x by (simp add: floor_le_iff)
  then have "binade x \<le> 0" by (simp add: binade_def)
  then have "real_of_int (binade x) - 52 \<le> - 52" by simp
  then have "ulp x \<le> 2 powr (- 52)" unfolding ulp_def by simp
  then show ?thesis by (simp add: powr_neg_numeral)
qed


text \<open>A double below 1 is at most the largest double below 1.\<close>

lemma double_below_one:
  assumes d: "to_double r = r" and r: "r < 1"
  shows "r \<le> 1 - 1 / 2 ^ 53"
proof (cases "r < 1/2")
  case True
  then show ?thesis by simp
next
  case False
  then have u: "ulp r = 1 / 2 ^ 53" using r by (simp add: ulp_half)
  define n where "n = round_ties_even (r / ulp r)"
  have "real_of_int n * ulp r = r"
    using d by (simp only: to_double_def n_def)
  then have rn: "r = real_of_int n / 2 ^ 53"
    unfolding u by simp
  then have "real_of_int n < real_of_int (2 ^ 53)" using r by (simp add: divide_simps)
  then have "n < 2 ^ 53" by (simp only: of_int_less_iff)
  then have "n \<le> 2 ^ 53 - 1" by simp
  then have "real_of_int n \<le> real_of_int (2 ^ 53 - 1)" by (simp only: of_int_le_iff)
  then show ?thesis unfolding rn by (simp add: divide_simps)
qed

lemma to_double_times_three_below_three:
  assumes d: "to_double r = r" and r: "0 \<le> r" "r < 1"
  shows "to_double (r * 3) < 3"
proof -
  consider "r = 0" | "0 < r" "r * 3 < 2" | "2 \<le> r * 3" using r by linarith
  then show ?thesis
  proof cases
    case 1
    then show ?thesis by (simp add: to_double_zero)
  next
    case 2
    then have "ulp (r * 3) \<le> 1 / 2 ^ 52" by (intro ulp_small) auto
    moreover have "to_double (r * 3) \<le> r * 3 + ulp (r * 3) / 2"
      using to_double_near [of "r * 3"] by linarith
    moreover have "(1 / 2 ^ 52 :: real) \<le> 1" by simp
    ultimately show ?thesis using 2 by linarith
  next
    case 3
    have lt: "r * 3 < 4" using r by simp
    have u: "ulp (r * 3) = 1 / 2 ^ 51" using 3 lt by (rule ulp_two)
    have "r \<le> 1 - 1 / 2 ^ 53" using d r(2) by (rule double_below_one)
    then have "r * 3 * 2 ^ 51 \<le> real_of_int (3 * 2 ^ 51 - 1) + 1/4"
      by (simp add: field_simps)
    then have "round_ties_even (r * 3 / ulp (r * 3)) \<le> 3 * 2 ^ 51 - 1"
      unfolding u by (intro round_ties_even_le) simp
    then have "real_of_int (round_ties_even (r * 3 / ulp (r * 3))) \<le> real_of_int (3 * 2 ^ 51 - 1)"
      by (simp only: of_int_le_iff)
    then have "to_double (r * 3) \<le> (3 * 2 ^ 51 - 1) / 2 ^ 51"
      unfolding to_double_def u by (simp add: divide_simps)
    then show ?thesis by (simp add: divide_simps)
  qed
qed

text \<open>A whole multiple of its own unit in the last place is a double.\<close>

lemma to_double_exact: "x = real_of_int n * ulp x \<Longrightarrow> to_double x = x"
proof -
  assume x: "x = real_of_int n * ulp x"
  then have "x / ulp x = real_of_int n" using ulp_pos [of x] by (simp add: field_simps)
  then show ?thesis unfolding to_double_def using x by (simp add: round_ties_even_int)
qed

lemma to_double_quarter: "to_double (1/4) = 1/4"
proof -
  have "ulp (1/4) = 1 / 2 ^ 54" by (rule ulp_quarter) simp_all
  then show ?thesis by (intro to_double_exact [of _ "2 ^ 52"]) simp
qed

lemma to_double_half: "to_double (1/2) = 1/2"
proof -
  have "ulp (1/2) = 1 / 2 ^ 53" by (rule ulp_half) simp_all
  then show ?thesis by (intro to_double_exact [of _ "2 ^ 52"]) simp
qed

lemma to_double_three_quarters: "to_double (3/4) = 3/4"
proof -
  have "ulp (3/4) = 1 / 2 ^ 53" by (rule ulp_half) simp_all
  then show ?thesis by (intro to_double_exact [of _ "3 * 2 ^ 51"]) simp
qed

lemma to_double_three_halves: "to_double (3/2) = 3/2"
proof -
  have "ulp (3/2) = 1 / 2 ^ 52" by (rule ulp_one) simp_all
  then show ?thesis by (intro to_double_exact [of _ "3 * 2 ^ 51"]) simp
qed


text \<open>The double next below 2/3, written 0.6666666666666666: three times it is 2.\<close>

lemma two_thirds_is_double: "to_double (6004799503160661 / 2 ^ 53) = 6004799503160661 / 2 ^ 53"
proof -
  have "ulp (6004799503160661 / 2 ^ 53) = 1 / 2 ^ 53" by (rule ulp_half) simp_all
  then show ?thesis by (intro to_double_exact [of _ 6004799503160661]) simp
qed

lemma two_thirds_times_three: "to_double (6004799503160661 / 2 ^ 53 * 3) = 2"
proof -
  let ?x = "6004799503160661 / 2 ^ 53 * 3 :: real"
  have u: "ulp ?x = 1 / 2 ^ 52" by (rule ulp_one) simp_all
  have q: "?x / (1 / 2 ^ 52) = real_of_int 9007199254740991 + 1/2"
    by simp
  have f: "\<lfloor>real_of_int 9007199254740991 + 1/2 :: real\<rfloor> = 9007199254740991"
    by (rule floor_unique) simp_all
  have "round_ties_even (real_of_int 9007199254740991 + 1/2) = 9007199254740992"
    unfolding round_ties_even_def Let_def f by simp
  then show ?thesis unfolding to_double_def u q by simp
qed


section \<open>Responses\<close>

lemma index_of_draw:
  assumes "to_double r = r" "0 \<le> r" "r < 1"
  shows "0 \<le> \<lfloor>to_double (r * 3)\<rfloor> \<and> \<lfloor>to_double (r * 3)\<rfloor> < 3"
  using to_double_times_three_below_three [OF assms] to_double_nonneg [of "r * 3"] assms(2)
  by (simp add: floor_less_iff)

lemma pick_random_index:
  assumes "to_double r = r" "0 \<le> r" "r < 1" "length xs = 3"
  shows "pick_random r xs = Some (xs ! nat \<lfloor>to_double (r * 3)\<rfloor>)
         \<and> nat \<lfloor>to_double (r * 3)\<rfloor> < 3"
proof -
  have i: "0 \<le> \<lfloor>to_double (r * 3)\<rfloor>" "\<lfloor>to_double (r * 3)\<rfloor> < 3"
    using index_of_draw [OF assms(1-3)] by simp_all
  then have "nat \<lfloor>to_double (r * 3)\<rfloor> < 3" by linarith
  then show ?thesis using i assms(4) by (simp add: pick_random_def Let_def)
qed

lemma responses_own:
  "map_of responses e = None
   \<or> (\<exists>rs. map_of responses e = Some rs \<and> length rs = 3 \<and> distinct rs
        \<and> set rs \<subseteq> set (concat (map snd responses)))"
  by (simp add: responses_def)

lemma responses_caring_three:
  "length responses_caring = 3 \<and> distinct responses_caring
   \<and> set responses_caring \<subseteq> set (concat (map snd responses))"
  by (simp add: responses_caring_def responses_def)

text \<open>
  The templates an emotion selects from: its own three, or those of \<open>caring\<close>.
\<close>

lemma generateAbhayResponse_template:
  assumes e: "emotion \<notin> set object_prototype_names"
  shows "\<exists>rs. length rs = 3 \<and> distinct rs \<and> set rs \<subseteq> set (concat (map snd responses))
           \<and> (\<forall>r' input mems. to_double r' = r' \<and> 0 \<le> r' \<and> r' < 1 \<longrightarrow>
                generateAbhayResponse r' input emotion (mems :: 'm list)
                  = Some (rs ! nat \<lfloor>to_double (r' * 3)\<rfloor>
                          @ (if mems = [] then [] else memory_suffix)))"
proof (cases "map_of responses emotion")
  case None
  then have g: "get_property responses emotion = Undefined"
    using e by (simp add: get_property_def)
  show ?thesis
  proof (intro exI [of _ responses_caring] conjI allI impI)
    fix r' :: real and input :: string and mems :: "'m list"
    assume "to_double r' = r' \<and> 0 \<le> r' \<and> r' < 1"
    then have "pick_random r' responses_caring
                 = Some (responses_caring ! nat \<lfloor>to_double (r' * 3)\<rfloor>)"
      using pick_random_index responses_caring_three by blast
    then show "generateAbhayResponse r' input emotion mems
                 = Some (responses_caring ! nat \<lfloor>to_double (r' * 3)\<rfloor>
                         @ (if mems = [] then [] else memory_suffix))"
      by (simp add: generateAbhayResponse_def g)
  qed (use responses_caring_three in blast)+
next
  case (Some rs)
  then have g: "get_property responses emotion = Own rs"
    by (simp add: get_property_def)
  have three: "length rs = 3 \<and> distinct rs \<and> set rs \<subseteq> set (concat (map snd responses))"
    using responses_own [of emotion] Some by simp
  show ?thesis
  proof (intro exI [of _ rs] conjI allI impI)
    fix r' :: real and input :: string and mems :: "'m list"
    assume "to_double r' = r' \<and> 0 \<le> r' \<and> r' < 1"
    then have "pick_random r' rs = Some (rs ! nat \<lfloor>to_double (r' * 3)\<rfloor>)"
      using pick_random_index three by blast
    then show "generateAbhayResponse r' input emotion mems
                 = Some (rs ! nat \<lfloor>to_double (r' * 3)\<rfloor>
                         @ (if mems = [] then [] else memory_suffix))"
      by (simp add: generateAbhayResponse_def g)
  qed (use three in blast)+
qed

lemma analyzeInputEmotion_range:
  "analyzeInputEmotion lower input
     \<in> {''neutral'', ''melancholic'', ''romantic'', ''nostalgic'', ''caring''}"
  by (simp add: analyzeInputEmotion_def emotionKeywords_def Let_def split: prod.splits if_splits)

lemma analyzeInputEmotion_not_inherited:
  "analyzeInputEmotion lower input \<notin> set object_prototype_names"
  using analyzeInputEmotion_range [of lower input]
  by (auto simp: object_prototype_names_def)

text \<open>
  C3, as stated, fails: the same input, emotion and memories, with the draws \<open>0\<close>
  and \<open>1/2\<close> of \<open>Math.random\<close>, give two different texts.
\<close>

theorem deterministic_response_counterexample:
  "generateAbhayResponse 0 ''hello'' ''caring'' ([] :: unit memory list)
     \<noteq> generateAbhayResponse (1/2) ''hello'' ''caring'' ([] :: unit memory list)"
  by (simp add: generateAbhayResponse_def get_property_def responses_def pick_random_def
      to_double_zero to_double_three_halves)

text \<open>
  C3, amended. \<open>generateAbhayResponse\<close> is determined by the emotion, by whether
  memories are given, and by the draw of \<open>Math.random\<close>: for an emotion that is no
  property name of \<open>Object.prototype\<close> and for two draws that are doubles from 0 up to
  but not 1, two calls with the same emotion and memories return the same text exactly
  when their draws select the same of the three templates, that is when the floor of
  the double product \<open>random * 3\<close> agrees; the input text plays no part.
\<close>

theorem generateAbhayResponse_same_iff_same_draw:
  assumes "to_double r1 = r1" "0 \<le> r1" "r1 < 1"
    and "to_double r2 = r2" "0 \<le> r2" "r2 < 1"
    and "emotion \<notin> set object_prototype_names"
  shows "(generateAbhayResponse r1 input1 emotion mems = generateAbhayResponse r2 input2 emotion mems)
          = (\<lfloor>to_double (r1 * 3)\<rfloor> = \<lfloor>to_double (r2 * 3)\<rfloor>)"
proof -
  obtain rs where rs: "length rs = 3" "distinct rs"
    and g: "\<And>r' input. to_double r' = r' \<and> 0 \<le> r' \<and> r' < 1 \<Longrightarrow>
              generateAbhayResponse r' input emotion mems
                = Some (rs ! nat \<lfloor>to_double (r' * 3)\<rfloor>
                        @ (if mems = [] then [] else memory_suffix))"
    using generateAbhayResponse_template [OF assms(7)] by blast
  have i1: "nat \<lfloor>to_double (r1 * 3)\<rfloor> < length rs"
    and i2: "nat \<lfloor>to_double (r2 * 3)\<rfloor> < length rs"
    using pick_random_index [OF assms(1-3) rs(1)] pick_random_index [OF assms(4-6) rs(1)] rs(1)
    by simp_all
  have lo: "0 \<le> \<lfloor>to_double (r1 * 3)\<rfloor>" "0 \<le> \<lfloor>to_double (r2 * 3)\<rfloor>"
    using index_of_draw [OF assms(1-3)] index_of_draw [OF assms(4-6)] by simp_all
  have "(generateAbhayResponse r1 input1 emotion mems = generateAbhayResponse r2 input2 emotion mems)
          = (rs ! nat \<lfloor>to_double (r1 * 3)\<rfloor> = rs ! nat \<lfloor>to_double (r2 * 3)\<rfloor>)"
    using g [of r1 input1] g [of r2 input2] assms(1-6) by simp
  also have "\<dots> = (nat \<lfloor>to_double (r1 * 3)\<rfloor> = nat \<lfloor>to_double (r2 * 3)\<rfloor>)"
    using nth_eq_iff_index_eq [OF rs(2) i1 i2] .
  also have "\<dots> = (\<lfloor>to_double (r1 * 3)\<rfloor> = \<lfloor>to_double (r2 * 3)\<rfloor>)"
    using lo by linarith
  finally show ?thesis .
qed

text \<open>
  C3, amended, for \<open>caring\<close>. The draws \<open>1/4\<close> and \<open>0.6666666666666666\<close> (the double
  next below 2/3) are doubles; the double products with 3 are \<open>3/4\<close> and \<open>2\<close>, so the
  draws select the first and the third template and the texts differ, while the draws
  \<open>0\<close> and \<open>1/4\<close> both select the first.
\<close>

theorem generateAbhayResponse_same_iff_same_draw_witness:
  "to_double 0 = 0 \<and> to_double (1/4) = 1/4
   \<and> to_double (6004799503160661 / 2 ^ 53) = 6004799503160661 / 2 ^ 53
   \<and> (0 :: real) \<le> 1/4 \<and> (1/4 :: real) < 1
   \<and> (0 :: real) \<le> 6004799503160661 / 2 ^ 53 \<and> (6004799503160661 / 2 ^ 53 :: real) < 1
   \<and> ''caring'' \<notin> set object_prototype_names
   \<and> \<lfloor>to_double (0 * 3)\<rfloor> = 0 \<and> \<lfloor>to_double (1/4 * 3)\<rfloor> = 0
   \<and> \<lfloor>to_double (6004799503160661 / 2 ^ 53 * 3)\<rfloor> = 2
   \<and> generateAbhayResponse 0 ''hello'' ''caring'' ([] :: unit memory list)
       = generateAbhayResponse (1/4) ''hello again'' ''caring'' ([] :: unit memory list)
   \<and> generateAbhayResponse (1/4) ''hello'' ''caring'' ([] :: unit memory list)
       \<noteq> generateAbhayResponse (6004799503160661 / 2 ^ 53) ''hello'' ''caring'' ([] :: unit memory list)"
proof -
  have e: "''caring'' \<notin> set object_prototype_names"
    by (simp add: object_prototype_names_def)
  have f0: "\<lfloor>to_double (0 * 3)\<rfloor> = 0"
    by (simp add: to_double_zero)
  have f1: "\<lfloor>to_double (1/4 * 3)\<rfloor> = 0"
    by (simp add: to_double_three_quarters)
  have f2: "\<lfloor>to_double (6004799503160661 / 2 ^ 53 * 3)\<rfloor> = 2"
    by (simp only: two_thirds_times_three) simp
  have same: "generateAbhayResponse 0 ''hello'' ''caring'' ([] :: unit memory list)
       = generateAbhayResponse (1/4) ''hello again'' ''caring'' ([] :: unit memory list)"
    using generateAbhayResponse_same_iff_same_draw
      [OF to_double_zero _ _ to_double_quarter _ _ e,
       of "''hello''" "[] :: unit memory list" "''hello again''"] f0 f1
    by simp
  have diff: "generateAbhayResponse (1/4) ''hello'' ''caring'' ([] :: unit memory list)
       \<noteq> generateAbhayResponse (6004799503160661 / 2 ^ 53) ''hello'' ''caring'' ([] :: unit memory list)"
    using generateAbhayResponse_same_iff_same_draw
      [OF to_double_quarter _ _ two_thirds_is_double _ _ e,
       of "''hello''" "[] :: unit memory list" "''hello''"] f1 f2
    by simp
  show ?thesis
    using e f0 f1 f2 same diff to_double_zero to_double_quarter two_thirds_is_double
    by simp
qed

text \<open>
  With no memories the response path returns one of the twelve templates, with
  nothing appended: for every draw that is a double from 0 up to but not 1,
  \<open>getPersonalizedResponse\<close> on a trainer without memories, or with none that matches,
  gives a template, since \<open>analyzeInputEmotion\<close> returns one of four emotions or
  \<open>neutral\<close>.
\<close>

lemma plain_response:
  assumes "to_double random = random" "0 \<le> random" "random < 1"
  shows "\<exists>t \<in> set (concat (map snd responses)).
            generateAbhayResponse random input (analyzeInputEmotion lower other) ([] :: 'm list)
              = Some t"
proof -
  obtain rs where rs: "length rs = 3" "set rs \<subseteq> set (concat (map snd responses))"
    and g: "\<And>r' input. to_double r' = r' \<and> 0 \<le> r' \<and> r' < 1 \<Longrightarrow>
              generateAbhayResponse r' input (analyzeInputEmotion lower other) ([] :: 'm list)
                = Some (rs ! nat \<lfloor>to_double (r' * 3)\<rfloor>
                        @ (if ([] :: 'm list) = [] then [] else memory_suffix))"
    using generateAbhayResponse_template [OF analyzeInputEmotion_not_inherited, of lower other]
    by blast
  have "nat \<lfloor>to_double (random * 3)\<rfloor> < length rs"
    using pick_random_index [OF assms rs(1)] rs(1) by simp
  then have "rs ! nat \<lfloor>to_double (random * 3)\<rfloor> \<in> set (concat (map snd responses))"
    using rs(2) nth_mem by blast
  then show ?thesis using g [of random input] assms by simp
qed

lemma getPersonalizedResponse_plain:
  assumes "to_double random = random" "0 \<le> random" "random < 1"
    and "memories s = [] \<or> findRelevantMemories lower json (memories s) userInput = []"
  shows "\<exists>t \<in> set (concat (map snd responses)).
           getPersonalizedResponse lower json random s userInput = Some t"
proof -
  have "findRelevantMemories lower json (memories s) userInput = []"
    using assms(4) by (auto simp: findRelevantMemories_def)
  then show ?thesis
    using plain_response [OF assms(1-3), of userInput lower userInput]
    by (simp add: getPersonalizedResponse_def Let_def)
qed

text \<open>
  C6 fails at the emotion \<open>toString\<close>. \<open>responses['toString']\<close> finds the function
  inherited from \<open>Object.prototype\<close>, which is truthy, so the fallback to
  \<open>responses.caring\<close> is not taken; the function has no element at the drawn index, and
  with an empty list of memories \<open>generateAbhayResponse\<close> returns \<open>undefined\<close>, whatever
  the draw and the input.
\<close>

theorem generateAbhayResponse_inherited_name_undefined:
  "generateAbhayResponse random input ''toString'' ([] :: 'm list) = None"
  by (simp add: generateAbhayResponse_def get_property_def responses_def
      object_prototype_names_def)

section \<open>The chunker keeps the text\<close>

lemma concat_sentences_from: "concat (sentences_from cur ts) = cur @ ts"
  by (induction ts arbitrary: cur) auto

lemma content_whole: "concat (map content (whole cur)) = cur"
  by (simp add: whole_def)

lemma content_hard_split: "concat (map content (hard_split n ts)) = ts"
proof (induction n ts rule: hard_split.induct)
  case (1 n ts)
  show ?case
  proof (cases "n = 0 \<or> length ts \<le> n")
    case True
    then show ?thesis by (subst hard_split.simps) simp
  next
    case False
    then have "concat (map content (hard_split n (drop n ts))) = drop n ts"
      using "1.IH" by simp
    then show ?thesis using False by (subst hard_split.simps) simp
  qed
qed

lemma content_pack: "concat (map content (pack n cur ss)) = cur @ concat ss"
  by (induction ss arbitrary: cur) (auto simp: content_whole content_hard_split)

lemma tokens_from_spaces: "list_all is_space s \<Longrightarrow> tokens_from [] s = []"
  by (induction s) auto

lemma length_hard_split: "0 < n \<Longrightarrow> list_all (\<lambda>c. length (content c) \<le> n) (hard_split n ts)"
proof (induction n ts rule: hard_split.induct)
  case (1 n ts)
  show ?case
  proof (cases "length ts \<le> n")
    case True
    then show ?thesis by (subst hard_split.simps) simp
  next
    case False
    then show ?thesis using "1.IH" "1.prems" by (subst hard_split.simps) simp
  qed
qed

lemma length_pack:
  "0 < n \<Longrightarrow> length cur \<le> n \<Longrightarrow> list_all (\<lambda>c. length (content c) \<le> n) (pack n cur ss)"
  by (induction ss arbitrary: cur) (auto simp: whole_def length_hard_split)

text \<open>
  C8. The contents of the chunks of a text, concatenated in the order of the chunks,
  are the tokens of the text in their order: the text up to whitespace. A text of
  whitespace only gives no chunk, and for a positive maximum no chunk is longer than
  the maximum.
\<close>

theorem chunk_keeps_text_in_order:
  "concat (map content (chunk n text)) = tokens text
   \<and> (list_all is_space text \<longrightarrow> chunk n text = [])
   \<and> (0 < n \<longrightarrow> list_all (\<lambda>c. length (content c) \<le> n) (chunk n text))"
proof (intro conjI impI)
  show "concat (map content (chunk n text)) = tokens text"
    by (simp add: chunk_def content_pack sentences_def concat_sentences_from)
  show "chunk n text = []" if "list_all is_space text"
    using that by (simp add: chunk_def tokens_def tokens_from_spaces sentences_def whole_def)
  show "list_all (\<lambda>c. length (content c) \<le> n) (chunk n text)" if "0 < n"
    using that by (simp add: chunk_def length_pack)
qed

text \<open>
  C8, on a text of three sentences with a maximum of four tokens: the first two
  sentences share a chunk, the third is split, and the tokens come back in order.
\<close>

theorem chunk_keeps_text_in_order_witness:
  "chunk 4 ''Hi  there. We met in Goa. It rained all night and all day!''
     = [\<lparr> content = [''Hi'', ''there.''], truncated = False \<rparr>,
        \<lparr> content = [''We'', ''met'', ''in'', ''Goa.''], truncated = False \<rparr>,
        \<lparr> content = [''It'', ''rained'', ''all'', ''night''], truncated = True \<rparr>,
        \<lparr> content = [''and'', ''all'', ''day!''], truncated = True \<rparr>]
   \<and> tokens ''Hi  there. We met in Goa. It rained all night and all day!''
       = [''Hi'', ''there.'', ''We'', ''met'', ''in'', ''Goa.'',
          ''It'', ''rained'', ''all'', ''night'', ''and'', ''all'', ''day!'']
   \<and> list_all is_space ''  ''
   \<and> chunk 4 ''  '' = []
   \<and> (0 :: nat) < 4"
proof -
  have t: "tokens ''Hi  there. We met in Goa. It rained all night and all day!''
       = [''Hi'', ''there.'', ''We'', ''met'', ''in'', ''Goa.'',
          ''It'', ''rained'', ''all'', ''night'', ''and'', ''all'', ''day!'']"
    by code_simp
  have c: "chunk 4 ''Hi  there. We met in Goa. It rained all night and all day!''
     = [\<lparr> content = [''Hi'', ''there.''], truncated = False \<rparr>,
        \<lparr> content = [''We'', ''met'', ''in'', ''Goa.''], truncated = False \<rparr>,
        \<lparr> content = [''It'', ''rained'', ''all'', ''night''], truncated = True \<rparr>,
        \<lparr> content = [''and'', ''all'', ''day!''], truncated = True \<rparr>]"
    by code_simp
  have s: "list_all is_space ''  ''" by (simp add: is_space_def)
  from chunk_keeps_text_in_order [of 4 "''  ''"] s have "chunk 4 ''  '' = []" by blast
  then show ?thesis using t c s by simp
qed

end
